theory Spec2Isabelle
  imports Main
begin

section \<open>Python values\<close>

text \<open>
  The handlers of \<^verbatim>\<open>src/api/index.py\<close> and \<^verbatim>\<open>src/endpoints.py\<close> work on the value of
  \<^verbatim>\<open>request.json\<close>, a Python value decoded from JSON. \<open>JNull\<close> is Python's \<^verbatim>\<open>None\<close>;
  a dict is the list of its items, read with \<open>map_of\<close> (the keys of a decoded dict are
  distinct). JSON numbers are integers here: the code only tests a number for truth,
  formats it or fails on it, and a float behaves like an integer in each of these.
\<close>

datatype json =
    JNull
  | JBool bool
  | JNum int
  | JStr string
  | JList "json list"
  | JObj "(string \<times> json) list"

type_synonym row = "(string \<times> json) list"

text \<open>Python's truth test (\<^verbatim>\<open>if x\<close>, \<^verbatim>\<open>not x\<close>).\<close>

fun truthy :: "json \<Rightarrow> bool" where
  "truthy JNull = False"
| "truthy (JBool b) = b"
| "truthy (JNum n) = (n \<noteq> 0)"
| "truthy (JStr s) = (s \<noteq> [])"
| "truthy (JList xs) = (xs \<noteq> [])"
| "truthy (JObj kvs) = (kvs \<noteq> [])"

fun type_name :: "json \<Rightarrow> string" where
  "type_name JNull = ''NoneType''"
| "type_name (JBool b) = ''bool''"
| "type_name (JNum n) = ''int''"
| "type_name (JStr s) = ''str''"
| "type_name (JList xs) = ''list''"
| "type_name (JObj kvs) = ''dict''"

text \<open>
  Exceptions. Every handler catches \<^verbatim>\<open>Exception\<close>, so only the message \<^verbatim>\<open>str(e)\<close> of an
  exception is ever observed; an error raised by a client library (database, identity
  provider, object store) is any value of this type.
\<close>

datatype error =
    Exception string
  | AttributeError string
  | TypeError string
  | KeyError string
  | IndexError string

fun str_of_error :: "error \<Rightarrow> string" where
  "str_of_error (Exception m) = m"
| "str_of_error (AttributeError m) = m"
| "str_of_error (TypeError m) = m"
| "str_of_error (KeyError m) = m"
| "str_of_error (IndexError m) = m"

definition quoted :: "string \<Rightarrow> string" where
  "quoted s = [CHR 0x27] @ s @ [CHR 0x27]"

definition no_attribute :: "json \<Rightarrow> string \<Rightarrow> error" where
  "no_attribute v a =
     AttributeError (quoted (type_name v) @ '' object has no attribute '' @ quoted a)"

text \<open>\<^verbatim>\<open>d.get(k, default)\<close> and \<^verbatim>\<open>d[k]\<close> on a dict.\<close>

definition dict_get :: "row \<Rightarrow> string \<Rightarrow> json \<Rightarrow> json" where
  "dict_get d k dflt = (case map_of d k of None \<Rightarrow> dflt | Some v \<Rightarrow> v)"

definition dict_item :: "row \<Rightarrow> string \<Rightarrow> error + json" where
  "dict_item d k =
     (case map_of d k of None \<Rightarrow> Inl (KeyError (quoted k)) | Some v \<Rightarrow> Inr v)"

text \<open>\<^verbatim>\<open>v.get(k, default)\<close> on any value: only a dict has \<^verbatim>\<open>get\<close>.\<close>

definition py_get :: "json \<Rightarrow> string \<Rightarrow> json \<Rightarrow> error + json" where
  "py_get v k dflt =
     (case v of JObj d \<Rightarrow> Inr (dict_get d k dflt) | _ \<Rightarrow> Inl (no_attribute v ''get''))"

subsection \<open>Strings\<close>

text \<open>\<^verbatim>\<open>sep in s\<close> on two strings: \<open>sep\<close> occurs in \<open>s\<close>.\<close>

fun py_in :: "string \<Rightarrow> string \<Rightarrow> bool" where
  "py_in sep [] = (sep = [])"
| "py_in sep (c # cs) = (take (length sep) (c # cs) = sep \<or> py_in sep cs)"

text \<open>
  \<^verbatim>\<open>s.split(sep)\<close>: the pieces of \<open>s\<close> between the occurrences of \<open>sep\<close>, found from the
  left without overlap. \<open>acc\<close> holds the current piece, reversed. Python raises
  \<^verbatim>\<open>ValueError\<close> for an empty separator; both separators of the code end in a fixed
  non-empty text, and for an empty one this function returns the string whole.
\<close>

function split_from :: "string \<Rightarrow> string \<Rightarrow> string \<Rightarrow> string list" where
  "split_from sep acc [] = [rev acc]"
| "split_from sep acc (c # cs) =
     (if sep \<noteq> [] \<and> take (length sep) (c # cs) = sep
      then rev acc # split_from sep [] (drop (length sep) (c # cs))
      else split_from sep (c # acc) cs)"
  by pat_completeness auto
termination
  by (relation "measure (\<lambda>(sep, acc, s). length s)") (auto simp: Suc_le_eq)

definition py_split :: "string \<Rightarrow> string \<Rightarrow> string list" where
  "py_split s sep = split_from sep [] s"

text \<open>\<^verbatim>\<open>str(n)\<close> of an integer: its decimal digits, with a minus sign when negative.\<close>

definition digit_char :: "nat \<Rightarrow> char" where
  "digit_char d = ''0123456789'' ! (d mod 10)"

function str_nat :: "nat \<Rightarrow> string" where
  "str_nat n = (if n < 10 then [digit_char n] else str_nat (n div 10) @ [digit_char (n mod 10)])"
  by pat_completeness auto
termination
  by (relation "measure id") auto

text \<open>The equation of \<open>str_nat\<close> calls itself without a pattern: it is unfolded by hand.\<close>

declare str_nat.simps [simp del]

definition str_int :: "int \<Rightarrow> string" where
  "str_int i = (if i < 0 then CHR ''-'' # str_nat (nat (- i)) else str_nat (nat i))"

text \<open>
  What an f-string shows for a value. For \<^verbatim>\<open>None\<close>, a bool, an integer and a string this is
  fixed; for a list or a dict it is Python's \<^verbatim>\<open>repr\<close> of the elements, which is kept as a
  parameter \<open>repr\<close>.
\<close>

definition py_str :: "(json \<Rightarrow> string) \<Rightarrow> json \<Rightarrow> string" where
  "py_str repr v =
     (case v of
        JNull \<Rightarrow> ''None''
      | JBool b \<Rightarrow> (if b then ''True'' else ''False'')
      | JNum n \<Rightarrow> str_int n
      | JStr s \<Rightarrow> s
      | _ \<Rightarrow> repr v)"

text \<open>\<^verbatim>\<open>len(v)\<close> and \<^verbatim>\<open>for x in v\<close>: a string gives its characters, a dict its keys.\<close>

definition py_len :: "json \<Rightarrow> error + nat" where
  "py_len v =
     (case v of
        JStr s \<Rightarrow> Inr (length s)
      | JList xs \<Rightarrow> Inr (length xs)
      | JObj d \<Rightarrow> Inr (length d)
      | _ \<Rightarrow> Inl (TypeError (''object of type '' @ quoted (type_name v) @ '' has no len()'')))"

definition py_iter :: "json \<Rightarrow> error + json list" where
  "py_iter v =
     (case v of
        JStr s \<Rightarrow> Inr (map (\<lambda>c. JStr [c]) s)
      | JList xs \<Rightarrow> Inr xs
      | JObj d \<Rightarrow> Inr (map (\<lambda>kv. JStr (fst kv)) d)
      | _ \<Rightarrow> Inl (TypeError (quoted (type_name v) @ '' object is not iterable'')))"

section \<open>The world outside the handlers\<close>

text \<open>
  Every call a handler makes to something that is not its own code is recorded in a
  trace, in the order the code makes it: reading the clock, the password login, handing
  the token to the database client, a database statement, an object-store call.
\<close>

datatype event =
    DatetimeNow
  | TimeTime
  | SignInWithPassword
  | PostgrestAuth string
  | TableInsert string row
  | SelectUserId json
  | UpdateStatusAccepted json
  | DeleteObject "string option" string
  | GeneratePresignedUrl "string option" string json

text \<open>
  The answer of \<^verbatim>\<open>supabase.auth.sign_in_with_password\<close>: \<open>user\<close> is \<^verbatim>\<open>auth.user.id\<close> when
  \<^verbatim>\<open>auth.user\<close> is there, \<open>session\<close> is \<^verbatim>\<open>auth.session.access_token\<close> when \<^verbatim>\<open>auth.session\<close>
  is there.
\<close>

datatype auth_response = AuthResponse (user: "string option") (session: "string option")

text \<open>
  The environment fixes what the outside answers. Each answer may depend on the trace so
  far, so two calls of the same kind can be answered differently. \<open>datetime_now\<close> is in
  microseconds, \<open>time_millis\<close> is \<^verbatim>\<open>int(time.time() * 1000)\<close>. \<open>raises\<close> says whether a
  database or object-store call fails, and with which error. The clients built lazily by
  \<^verbatim>\<open>get_supabase\<close>, \<^verbatim>\<open>get_supabase_admin\<close> and \<^verbatim>\<open>get_s3_client\<close> (and at import time in
  \<^verbatim>\<open>endpoints.py\<close>) are taken as built: constructing them contacts nobody.
\<close>

record env =
  AWS_S3_BUCKET :: "string option"
  datetime_now :: "event list \<Rightarrow> int"
  time_millis :: "event list \<Rightarrow> int"
  sign_in_with_password :: "event list \<Rightarrow> error + auth_response option"
  raises :: "event list \<Rightarrow> event \<Rightarrow> error option"
  presigned_url :: "string option \<Rightarrow> string \<Rightarrow> json \<Rightarrow> string"
  repr :: "json \<Rightarrow> string"

text \<open>The fields of \<^verbatim>\<open>class AuthManager\<close>; all three start as \<^verbatim>\<open>None\<close>.\<close>

record AuthManager =
  token :: "string option"
  user_id :: "string option"
  expires_at :: "int option"

text \<open>
  The state a request runs in: the process-wide \<^verbatim>\<open>auth_manager\<close>, the three tables the
  code reads and writes, and the trace.
\<close>

record world =
  auth_manager :: AuthManager
  posts :: "row list"
  twitter_posts :: "row list"
  twitter_id_map :: "row list"
  trace :: "event list"

subsection \<open>Statements that may raise\<close>

type_synonym 'a io = "world \<Rightarrow> (error + 'a) \<times> world"

definition ret :: "'a \<Rightarrow> 'a io" where
  "ret x w = (Inr x, w)"

definition raise :: "error \<Rightarrow> 'a io" where
  "raise e w = (Inl e, w)"

definition lift :: "error + 'a \<Rightarrow> 'a io" where
  "lift r w = (r, w)"

text \<open>\<open>and_then m f\<close>: run \<open>m\<close>, then \<open>f\<close> on its value; an exception of \<open>m\<close> skips \<open>f\<close>.\<close>

definition and_then :: "'a io \<Rightarrow> ('a \<Rightarrow> 'b io) \<Rightarrow> 'b io" where
  "and_then m f w = (case m w of (Inl e, w') \<Rightarrow> (Inl e, w') | (Inr x, w') \<Rightarrow> f x w')"

text \<open>\<^verbatim>\<open>try: m  except Exception as e: h\<close>. The state changes made before the raise stay.\<close>

definition try_except :: "'a io \<Rightarrow> (error \<Rightarrow> 'a io) \<Rightarrow> 'a io" where
  "try_except m h w = (case m w of (Inl e, w') \<Rightarrow> h e w' | (Inr x, w') \<Rightarrow> (Inr x, w'))"

definition emit :: "event \<Rightarrow> unit io" where
  "emit ev w = (Inr (), w\<lparr>trace := trace w @ [ev]\<rparr>)"

text \<open>A call to the database or the object store: recorded, then it returns or raises.\<close>

definition external :: "env \<Rightarrow> event \<Rightarrow> unit io" where
  "external env ev w =
     (case raises env (trace w) ev of
        None \<Rightarrow> (Inr (), w\<lparr>trace := trace w @ [ev]\<rparr>)
      | Some e \<Rightarrow> (Inl e, w\<lparr>trace := trace w @ [ev]\<rparr>))"

definition now :: "env \<Rightarrow> int io" where
  "now env w = (Inr (datetime_now env (trace w)), w\<lparr>trace := trace w @ [DatetimeNow]\<rparr>)"

definition sign_in :: "env \<Rightarrow> auth_response option io" where
  "sign_in env w = (sign_in_with_password env (trace w), w\<lparr>trace := trace w @ [SignInWithPassword]\<rparr>)"

section \<open>Credential Cache: \<^verbatim>\<open>AuthManager\<close>\<close>

definition hour :: int where
  "hour = 3600000000"

definition set_token :: "string \<Rightarrow> unit io" where
  "set_token t w = (Inr (), w\<lparr>auth_manager := (auth_manager w)\<lparr>token := Some t\<rparr>\<rparr>)"

definition set_user_id :: "string \<Rightarrow> unit io" where
  "set_user_id u w = (Inr (), w\<lparr>auth_manager := (auth_manager w)\<lparr>user_id := Some u\<rparr>\<rparr>)"

definition set_expires_at :: "int \<Rightarrow> unit io" where
  "set_expires_at x w = (Inr (), w\<lparr>auth_manager := (auth_manager w)\<lparr>expires_at := Some x\<rparr>\<rparr>)"

text \<open>
  The part of \<^verbatim>\<open>get_token\<close> after the cache test, the same in both files: log in, fail
  with \<^verbatim>\<open>Exception("Bot login failed")\<close> when there is no answer or no session, else
  assign the three fields in the order of the source. \<^verbatim>\<open>auth.user.id\<close> raises when
  \<^verbatim>\<open>auth.user\<close> is \<^verbatim>\<open>None\<close>, after the token has been assigned.
\<close>

definition login_and_refresh :: "env \<Rightarrow> string io" where
  "login_and_refresh env =
     and_then (sign_in env) (\<lambda>auth.
       case auth of
         None \<Rightarrow> raise (Exception ''Bot login failed'')
       | Some a \<Rightarrow>
           (case session a of
              None \<Rightarrow> raise (Exception ''Bot login failed'')
            | Some access_token \<Rightarrow>
                and_then (set_token access_token) (\<lambda>_.
                  case user a of
                    None \<Rightarrow> raise (no_attribute JNull ''id'')
                  | Some uid \<Rightarrow>
                      and_then (set_user_id uid) (\<lambda>_.
                      and_then (now env) (\<lambda>n.
                      and_then (set_expires_at (n + hour)) (\<lambda>_.
                      ret access_token))))))"

text \<open>
  \<^verbatim>\<open>src/api/index.py\<close>:
  \<^verbatim>\<open>if self.token and self.expires_at and datetime.now() < self.expires_at\<close>.
  The clock is read only when the first two tests pass.
\<close>

definition get_token :: "env \<Rightarrow> string io" where
  "get_token env w =
     (case token (auth_manager w) of
        None \<Rightarrow> login_and_refresh env w
      | Some t \<Rightarrow>
          if t = [] then login_and_refresh env w
          else (case expires_at (auth_manager w) of
                  None \<Rightarrow> login_and_refresh env w
                | Some x \<Rightarrow>
                    and_then (now env) (\<lambda>n.
                      if n < x then ret t else login_and_refresh env) w))"

text \<open>
  \<^verbatim>\<open>src/endpoints.py\<close>: \<^verbatim>\<open>if self.token and datetime.now() < self.expires_at\<close>. With a token
  and no expiry the comparison of a datetime with \<^verbatim>\<open>None\<close> raises \<^verbatim>\<open>TypeError\<close>.
\<close>

definition endpoints_get_token :: "env \<Rightarrow> string io" where
  "endpoints_get_token env w =
     (case token (auth_manager w) of
        None \<Rightarrow> login_and_refresh env w
      | Some t \<Rightarrow>
          if t = [] then login_and_refresh env w
          else and_then (now env) (\<lambda>n.
                 case expires_at (auth_manager w) of
                   None \<Rightarrow> raise (TypeError
                     (quoted ''<'' @ '' not supported between instances of ''
                        @ quoted ''datetime.datetime'' @ '' and '' @ quoted ''NoneType''))
                 | Some x \<Rightarrow> if n < x then ret t else login_and_refresh env) w)"

text \<open>\<^verbatim>\<open>get_user_id\<close>: \<^verbatim>\<open>self.get_token()\<close>, then \<^verbatim>\<open>return self.user_id\<close>.\<close>

definition get_user_id :: "env \<Rightarrow> string option io" where
  "get_user_id env = and_then (get_token env) (\<lambda>_ w. (Inr (user_id (auth_manager w)), w))"

definition endpoints_get_user_id :: "env \<Rightarrow> string option io" where
  "endpoints_get_user_id env =
     and_then (endpoints_get_token env) (\<lambda>_ w. (Inr (user_id (auth_manager w)), w))"

section \<open>Media Cleanup: \<^verbatim>\<open>delete_media_from_storage\<close>\<close>

text \<open>\<^verbatim>\<open>f'{s3_bucket}.s3.amazonaws.com/'\<close>; an unset bucket name is shown as \<^verbatim>\<open>None\<close>.\<close>

definition bucket_text :: "env \<Rightarrow> string" where
  "bucket_text env = (case AWS_S3_BUCKET env of None \<Rightarrow> ''None'' | Some b \<Rightarrow> b)"

definition bucket_prefix :: "env \<Rightarrow> string" where
  "bucket_prefix env = bucket_text env @ ''.s3.amazonaws.com/''"

text \<open>
  The body of the inner \<^verbatim>\<open>try\<close>, for one element of \<^verbatim>\<open>media_urls\<close>. On a string, \<^verbatim>\<open>in\<close> is
  the substring test and the key is the second piece of the split. On a list or a dict
  \<^verbatim>\<open>in\<close> is membership, and \<^verbatim>\<open>split\<close> does not exist; on anything else \<^verbatim>\<open>in\<close> raises.
\<close>

definition delete_one :: "env \<Rightarrow> json \<Rightarrow> unit io" where
  "delete_one env media_url =
     (case media_url of
        JStr s \<Rightarrow>
          if py_in (bucket_prefix env) s
          then (case py_split s (bucket_prefix env) of
                  _ # s3_key # _ \<Rightarrow> external env (DeleteObject (AWS_S3_BUCKET env) s3_key)
                | _ \<Rightarrow> raise (IndexError ''list index out of range''))
          else ret ()
      | JList xs \<Rightarrow>
          if JStr (bucket_prefix env) \<in> set xs
          then raise (no_attribute media_url ''split'') else ret ()
      | JObj d \<Rightarrow>
          if bucket_prefix env \<in> fst ` set d
          then raise (no_attribute media_url ''split'') else ret ()
      | _ \<Rightarrow> raise (TypeError
                (''argument of type '' @ quoted (type_name media_url) @ '' is not iterable'')))"

text \<open>The \<^verbatim>\<open>for\<close> loop: each element in its own \<^verbatim>\<open>try\<close>, whose \<^verbatim>\<open>except\<close> only prints.\<close>

fun delete_each :: "env \<Rightarrow> json list \<Rightarrow> unit io" where
  "delete_each env [] = ret ()"
| "delete_each env (media_url # rest) =
     and_then (try_except (delete_one env media_url) (\<lambda>e. ret ()))
       (\<lambda>_. delete_each env rest)"

text \<open>
  \<^verbatim>\<open>delete_media_from_storage\<close>, the same in both files once the clients are built:
  nothing for a false \<^verbatim>\<open>media_urls\<close>; else, in the outer \<^verbatim>\<open>try\<close>, \<^verbatim>\<open>len(media_urls)\<close> for the
  message and the loop. The outer \<^verbatim>\<open>except\<close> only prints.
\<close>

definition delete_media_from_storage :: "env \<Rightarrow> json \<Rightarrow> unit io" where
  "delete_media_from_storage env media_urls =
     (if \<not> truthy media_urls then ret ()
      else try_except
             (and_then (lift (py_len media_urls)) (\<lambda>_.
              and_then (lift (py_iter media_urls)) (delete_each env)))
             (\<lambda>e. ret ()))"

section \<open>Database statements\<close>

text \<open>
  The tables belong to the database service. What a statement does to them is taken
  from what the code relies on: an insert stores the row and answers with it; a filter
  \<^verbatim>\<open>eq(column, value)\<close> keeps the rows whose column holds that value; an update changes
  the rows its filter keeps and answers with them as changed. A statement that raises
  changes nothing.
\<close>

definition store :: "string \<Rightarrow> row \<Rightarrow> world \<Rightarrow> world" where
  "store table r w =
     (if table = ''posts'' then w\<lparr>posts := posts w @ [r]\<rparr>
      else if table = ''twitter_posts'' then w\<lparr>twitter_posts := twitter_posts w @ [r]\<rparr>
      else w)"

text \<open>\<^verbatim>\<open>table(t).insert(r).execute()\<close>; the value is \<^verbatim>\<open>response.data\<close>.\<close>

definition table_insert :: "env \<Rightarrow> string \<Rightarrow> row \<Rightarrow> json io" where
  "table_insert env table r =
     and_then (external env (TableInsert table r))
       (\<lambda>_ w. (Inr (JList [JObj r]), store table r w))"

definition eq_filter :: "string \<Rightarrow> json \<Rightarrow> row \<Rightarrow> bool" where
  "eq_filter column v r = (map_of r column = Some v)"

text \<open>\<^verbatim>\<open>table('twitter_id_map').select('user_id').eq('username', u).execute()\<close>.\<close>

definition select_user_id :: "env \<Rightarrow> json \<Rightarrow> row list io" where
  "select_user_id env u =
     and_then (external env (SelectUserId u))
       (\<lambda>_ w. (Inr (map (\<lambda>r. [(''user_id'', dict_get r ''user_id'' JNull)])
                      (filter (eq_filter ''username'' u) (twitter_id_map w))), w))"




section \<open>Post Ingestion\<close>

text \<open>A response is \<^verbatim>\<open>jsonify(body), status\<close>.\<close>

type_synonym response = "json \<times> nat"

definition failure :: "string \<Rightarrow> nat \<Rightarrow> response" where
  "failure msg status = (JObj [(''success'', JBool False), (''error'', JStr msg)], status)"

definition success :: "json \<Rightarrow> string \<Rightarrow> nat \<Rightarrow> response" where
  "success data msg status =
     (JObj [(''success'', JBool True), (''data'', data), (''message'', JStr msg)], status)"

definition DEFAULT_BOT_USER_ID :: string where
  "DEFAULT_BOT_USER_ID = ''bdb9c10d-1127-476e-8b71-18acecc74824''"

definition opt_str :: "string option \<Rightarrow> json" where
  "opt_str x = (case x of None \<Rightarrow> JNull | Some s \<Rightarrow> JStr s)"

text \<open>The dict \<^verbatim>\<open>post_data\<close> of \<^verbatim>\<open>src/api/index.py\<close>, for a body that is a dict.\<close>

definition post_data :: "json \<Rightarrow> row \<Rightarrow> row" where
  "post_data uid data =
     [(''user_id'', uid),
      (''content'', dict_get data ''content'' JNull),
      (''post_type'', dict_get data ''post_type'' (JStr ''text'')),
      (''media_url'', dict_get data ''media_url'' JNull),
      (''twitter_unique_id'', dict_get data ''twitter_unique_id'' JNull),
      (''twitter_username'', dict_get data ''twitter_username'' JNull),
      (''source'', dict_get data ''source'' (JStr ''twitter'')),
      (''location'', dict_get data ''location'' JNull),
      (''link_preview'', dict_get data ''link_preview'' JNull)]"

text \<open>The one of \<^verbatim>\<open>src/endpoints.py\<close> has no \<^verbatim>\<open>link_preview\<close>.\<close>

definition endpoints_post_data :: "json \<Rightarrow> row \<Rightarrow> row" where
  "endpoints_post_data uid data =
     [(''user_id'', uid),
      (''content'', dict_get data ''content'' JNull),
      (''post_type'', dict_get data ''post_type'' (JStr ''text'')),
      (''media_url'', dict_get data ''media_url'' JNull),
      (''twitter_unique_id'', dict_get data ''twitter_unique_id'' JNull),
      (''twitter_username'', dict_get data ''twitter_username'' JNull),
      (''source'', dict_get data ''source'' (JStr ''twitter'')),
      (''location'', dict_get data ''location'' JNull)]"

text \<open>
  The three validation tests and what follows them, shared by the four handlers:
  \<^verbatim>\<open>if not data\<close>, \<^verbatim>\<open>if not data.get("content")\<close>, \<^verbatim>\<open>if not data.get("twitter_unique_id")\<close>,
  each answering 400. A body that is true and not a dict has no \<^verbatim>\<open>get\<close>. \<open>rest\<close> is the code
  after the tests, run on the dict.
\<close>

definition validated :: "json \<Rightarrow> (row \<Rightarrow> response io) \<Rightarrow> response io" where
  "validated data rest =
     (if \<not> truthy data then ret (failure ''No data provided'' 400)
      else (case data of
              JObj d \<Rightarrow>
                if \<not> truthy (dict_get d ''content'' JNull)
                then ret (failure ''content is required'' 400)
                else if \<not> truthy (dict_get d ''twitter_unique_id'' JNull)
                then ret (failure ''twitter_unique_id is required'' 400)
                else rest d
            | _ \<Rightarrow> raise (no_attribute data ''get'')))"

text \<open>
  \<^verbatim>\<open>media_urls = data.get("media_url", [])\<close> and \<^verbatim>\<open>if media_urls: print(... len(media_urls) ...)\<close>:
  the length of a number or of \<^verbatim>\<open>True\<close> raises.
\<close>

definition print_media_count :: "json \<Rightarrow> unit io" where
  "print_media_count media_urls =
     (if truthy media_urls then and_then (lift (py_len media_urls)) (\<lambda>_. ret ()) else ret ())"

text \<open>
  The \<^verbatim>\<open>except Exception as e\<close> block, word for word the same in the four handlers:
  \<^verbatim>\<open>media_urls = request.json.get("media_url", []) if request.json else []\<close>, the cleanup
  when \<^verbatim>\<open>media_urls\<close> is true, then the 500 answer with \<^verbatim>\<open>str(e)\<close>. An exception raised
  in this block leaves the handler.
\<close>

definition post_failed :: "env \<Rightarrow> json \<Rightarrow> error \<Rightarrow> response io" where
  "post_failed env request_json e =
     and_then (if truthy request_json then lift (py_get request_json ''media_url'' (JList []))
               else ret (JList [])) (\<lambda>media_urls.
     and_then (if truthy media_urls
               then and_then (lift (py_len media_urls)) (\<lambda>_.
                      delete_media_from_storage env media_urls)
               else ret ()) (\<lambda>_.
     ret (failure (str_of_error e) 500)))"

subsection \<open>\<^verbatim>\<open>src/api/index.py\<close>\<close>

text \<open>The \<^verbatim>\<open>try\<close> block of \<^verbatim>\<open>create_post_by_bot\<close> for a POST request.\<close>

definition create_post_by_bot_try :: "env \<Rightarrow> json \<Rightarrow> response io" where
  "create_post_by_bot_try env request_json =
     and_then (get_token env) (\<lambda>tok.
     and_then (get_user_id env) (\<lambda>uid.
     and_then (emit (PostgrestAuth tok)) (\<lambda>_.
     validated request_json (\<lambda>data.
       and_then (print_media_count (dict_get data ''media_url'' (JList []))) (\<lambda>_.
       and_then (table_insert env ''posts'' (post_data (opt_str uid) data)) (\<lambda>rows.
       ret (success rows ''Post created successfully'' 201)))))))"

definition create_post_by_bot :: "env \<Rightarrow> json \<Rightarrow> response io" where
  "create_post_by_bot env request_json =
     try_except (create_post_by_bot_try env request_json) (post_failed env request_json)"

text \<open>
  The user of a pending post: the mapping table is asked only for a true
  \<^verbatim>\<open>twitter_username\<close>, and an exception of the lookup is caught.
\<close>

definition resolve_user_id :: "env \<Rightarrow> json \<Rightarrow> json io" where
  "resolve_user_id env twitter_username =
     (if truthy twitter_username
      then try_except
             (and_then (select_user_id env twitter_username) (\<lambda>rows.
                case rows of
                  [] \<Rightarrow> ret (JStr DEFAULT_BOT_USER_ID)
                | r # _ \<Rightarrow> lift (dict_item r ''user_id'')))
             (\<lambda>e. ret (JStr DEFAULT_BOT_USER_ID))
      else ret (JStr DEFAULT_BOT_USER_ID))"

definition create_post_by_bot_for_approval_try :: "env \<Rightarrow> json \<Rightarrow> response io" where
  "create_post_by_bot_for_approval_try env request_json =
     validated request_json (\<lambda>data.
       and_then (resolve_user_id env (dict_get data ''twitter_username'' JNull)) (\<lambda>uid.
       and_then (print_media_count (dict_get data ''media_url'' (JList []))) (\<lambda>_.
       and_then (table_insert env ''twitter_posts'' (post_data uid data)) (\<lambda>rows.
       ret (success rows ''Post created successfully'' 201)))))"

definition create_post_by_bot_for_approval :: "env \<Rightarrow> json \<Rightarrow> response io" where
  "create_post_by_bot_for_approval env request_json =
     try_except (create_post_by_bot_for_approval_try env request_json)
       (post_failed env request_json)"

subsection \<open>\<^verbatim>\<open>src/endpoints.py\<close>\<close>

text \<open>Both handlers fetch the bot's token and user id first and differ in the table only.\<close>

definition endpoints_post_try :: "string \<Rightarrow> env \<Rightarrow> json \<Rightarrow> response io" where
  "endpoints_post_try table env request_json =
     and_then (endpoints_get_token env) (\<lambda>tok.
     and_then (endpoints_get_user_id env) (\<lambda>uid.
     and_then (emit (PostgrestAuth tok)) (\<lambda>_.
     validated request_json (\<lambda>data.
       and_then (print_media_count (dict_get data ''media_url'' (JList []))) (\<lambda>_.
       and_then (table_insert env table (endpoints_post_data (opt_str uid) data)) (\<lambda>rows.
       ret (success rows ''Post created successfully'' 201)))))))"

definition endpoints_create_post_by_bot :: "env \<Rightarrow> json \<Rightarrow> response io" where
  "endpoints_create_post_by_bot env request_json =
     try_except (endpoints_post_try ''posts'' env request_json) (post_failed env request_json)"

definition endpoints_create_post_by_bot_for_approval :: "env \<Rightarrow> json \<Rightarrow> response io" where
  "endpoints_create_post_by_bot_for_approval env request_json =
     try_except (endpoints_post_try ''twitter_posts'' env request_json)
       (post_failed env request_json)"

section \<open>Upload URL Issuer\<close>

text \<open>\<^verbatim>\<open>file_name.split('.')[-1]\<close>; only a string has \<^verbatim>\<open>split\<close>.\<close>

definition file_ext :: "string \<Rightarrow> string" where
  "file_ext file_name = last (py_split file_name ''.'')"

definition file_ext_of :: "json \<Rightarrow> error + string" where
  "file_ext_of file_name =
     (case file_name of JStr s \<Rightarrow> Inr (file_ext s) | _ \<Rightarrow> Inl (no_attribute file_name ''split''))"

text \<open>\<^verbatim>\<open>folder = 'post-images' if file_type == 'image' else 'post-videos'\<close>.\<close>

definition folder :: "json \<Rightarrow> string" where
  "folder file_type = (if file_type = JStr ''image'' then ''post-images'' else ''post-videos'')"

text \<open>\<^verbatim>\<open>f"{folder}/{user_id}/{timestamp}.{file_ext}"\<close>.\<close>

definition upload_s3_key :: "env \<Rightarrow> json \<Rightarrow> json \<Rightarrow> int \<Rightarrow> string \<Rightarrow> string" where
  "upload_s3_key env file_type uid timestamp ext =
     folder file_type @ ''/'' @ py_str (repr env) uid @ ''/'' @ str_int timestamp @ ''.'' @ ext"

text \<open>\<^verbatim>\<open>f"avatars/{user_id}/avatar.{file_ext}"\<close>.\<close>

definition avatar_s3_key :: "env \<Rightarrow> json \<Rightarrow> string \<Rightarrow> string" where
  "avatar_s3_key env uid ext = ''avatars/'' @ py_str (repr env) uid @ ''/avatar.'' @ ext"

definition time_time :: "env \<Rightarrow> int io" where
  "time_time env w = (Inr (time_millis env (trace w)), w\<lparr>trace := trace w @ [TimeTime]\<rparr>)"

text \<open>
  From \<^verbatim>\<open>s3_client.generate_presigned_url\<close> to the 200 answer, the same in both handlers.
\<close>

definition presign :: "env \<Rightarrow> string \<Rightarrow> json \<Rightarrow> response io" where
  "presign env s3_key content_type =
     and_then (external env (GeneratePresignedUrl (AWS_S3_BUCKET env) s3_key content_type)) (\<lambda>_.
     ret (JObj [(''upload_url'', JStr (presigned_url env (AWS_S3_BUCKET env) s3_key content_type)),
                (''public_url'', JStr (''https://'' @ bucket_prefix env @ s3_key)),
                (''s3_key'', JStr s3_key)], 200))"

definition missing_fields :: response where
  "missing_fields = (JObj [(''error'', JStr ''Missing required fields'')], 400)"

text \<open>The \<^verbatim>\<open>try\<close> block of \<^verbatim>\<open>get_upload_url\<close> from the first \<^verbatim>\<open>data.get\<close> on, for a dict.\<close>

definition upload_url_for :: "env \<Rightarrow> row \<Rightarrow> response io" where
  "upload_url_for env data =
     (let uid = dict_get data ''user_id'' JNull;
          file_type = dict_get data ''file_type'' JNull;
          file_name = dict_get data ''file_name'' JNull;
          content_type = dict_get data ''content_type'' JNull
      in if \<not> (truthy uid \<and> truthy file_type \<and> truthy file_name \<and> truthy content_type)
         then ret missing_fields
         else and_then (time_time env) (\<lambda>timestamp.
              and_then (lift (file_ext_of file_name)) (\<lambda>ext.
              presign env (upload_s3_key env file_type uid timestamp ext) content_type)))"

definition avatar_upload_url_for :: "env \<Rightarrow> row \<Rightarrow> response io" where
  "avatar_upload_url_for env data =
     (let uid = dict_get data ''user_id'' JNull;
          file_name = dict_get data ''file_name'' JNull;
          content_type = dict_get data ''content_type'' JNull
      in if \<not> (truthy uid \<and> truthy file_name \<and> truthy content_type)
         then ret missing_fields
         else and_then (lift (file_ext_of file_name)) (\<lambda>ext.
              presign env (avatar_s3_key env uid ext) content_type))"

definition upload_failed :: "error \<Rightarrow> response io" where
  "upload_failed e = ret (JObj [(''error'', JStr (str_of_error e))], 500)"

text \<open>\<^verbatim>\<open>src/api/index.py\<close>: \<^verbatim>\<open>data = request.json\<close>, for a POST request.\<close>

definition get_upload_url :: "env \<Rightarrow> json \<Rightarrow> response io" where
  "get_upload_url env request_json =
     try_except
       (case request_json of
          JObj data \<Rightarrow> upload_url_for env data
        | _ \<Rightarrow> raise (no_attribute request_json ''get''))
       upload_failed"

definition get_avatar_upload_url :: "env \<Rightarrow> json \<Rightarrow> response io" where
  "get_avatar_upload_url env request_json =
     try_except
       (case request_json of
          JObj data \<Rightarrow> avatar_upload_url_for env data
        | _ \<Rightarrow> raise (no_attribute request_json ''get''))
       upload_failed"

text \<open>\<^verbatim>\<open>src/endpoints.py\<close>: \<^verbatim>\<open>data = request.json or {}\<close>.\<close>

definition or_empty :: "json \<Rightarrow> json" where
  "or_empty v = (if truthy v then v else JObj [])"

definition endpoints_get_upload_url :: "env \<Rightarrow> json \<Rightarrow> response io" where
  "endpoints_get_upload_url env request_json =
     try_except
       (case or_empty request_json of
          JObj data \<Rightarrow> upload_url_for env data
        | v \<Rightarrow> raise (no_attribute v ''get''))
       upload_failed"

definition endpoints_get_avatar_upload_url :: "env \<Rightarrow> json \<Rightarrow> response io" where
  "endpoints_get_avatar_upload_url env request_json =
     try_except
       (case or_empty request_json of
          JObj data \<Rightarrow> avatar_upload_url_for env data
        | v \<Rightarrow> raise (no_attribute v ''get''))
       upload_failed"

section \<open>Approval Transfer: \<^verbatim>\<open>accept_twitter_post\<close>\<close>





section \<open>Vocabulary of the specification\<close>

subsection \<open>Credential Cache\<close>

text \<open>The number of password logins in a trace.\<close>

definition logins :: "event list \<Rightarrow> nat" where
  "logins tr = count_list tr SignInWithPassword"

text \<open>No cached token: the field is \<^verbatim>\<open>None\<close> or the empty string.\<close>

definition no_token :: "world \<Rightarrow> bool" where
  "no_token w = (case token (auth_manager w) of None \<Rightarrow> True | Some t \<Rightarrow> t = [])"

text \<open>A cached token exists and the clock, read now, is before the stored expiry.\<close>

definition cached :: "env \<Rightarrow> world \<Rightarrow> bool" where
  "cached env w =
     (\<not> no_token w \<and>
      (case expires_at (auth_manager w) of
         None \<Rightarrow> False
       | Some x \<Rightarrow> datetime_now env (trace w) < x))"

text \<open>A cached token exists and the clock, read now, has reached the stored expiry.\<close>

definition expired :: "env \<Rightarrow> world \<Rightarrow> bool" where
  "expired env w =
     (\<not> no_token w \<and>
      (case expires_at (auth_manager w) of
         None \<Rightarrow> False
       | Some x \<Rightarrow> x \<le> datetime_now env (trace w)))"

text \<open>
  The trace at the moment of the login: the clock has been read for the expiry test
  exactly when there is a token.
\<close>

definition before_login :: "world \<Rightarrow> event list" where
  "before_login w = (if no_token w then trace w else trace w @ [DatetimeNow])"

text \<open>The login returns no session: no answer at all, or an answer without session.\<close>

definition no_session :: "error + auth_response option \<Rightarrow> bool" where
  "no_session r =
     (case r of Inr None \<Rightarrow> True | Inr (Some a) \<Rightarrow> session a = None | Inl e \<Rightarrow> False)"

subsection \<open>Sample environments and states\<close>

text \<open>
  An environment in which every outside call succeeds: the bucket is \<^verbatim>\<open>b\<close>, the clock
  advances with the trace, the login answers with a user and a session.
\<close>

definition env0 :: env where
  "env0 = \<lparr>AWS_S3_BUCKET = Some ''b'',
           datetime_now = (\<lambda>tr. 1000 * int (length tr)),
           time_millis = (\<lambda>tr. 1700000000000 + int (length tr)),
           sign_in_with_password =
             (\<lambda>tr. Inr (Some (AuthResponse (Some ''bot-user'') (Some ''tok'')))),
           raises = (\<lambda>tr ev. None),
           presigned_url = (\<lambda>b k c. ''signed:'' @ k),
           repr = (\<lambda>v. ''?'')\<rparr>"

text \<open>The same, with a login that answers without a session.\<close>

definition env_no_session :: env where
  "env_no_session =
     env0\<lparr>sign_in_with_password := (\<lambda>tr. Inr (Some (AuthResponse None None)))\<rparr>"

text \<open>The state of a fresh process with empty tables.\<close>

definition world0 :: world where
  "world0 = \<lparr>auth_manager = \<lparr>token = None, user_id = None, expires_at = None\<rparr>,
             posts = [], twitter_posts = [], twitter_id_map = [], trace = []\<rparr>"

text \<open>A state with a token that expires at 5000 microseconds, and one whose token expired at 0.\<close>

definition world_cached :: world where
  "world_cached =
     world0\<lparr>auth_manager := \<lparr>token = Some ''old'', user_id = Some ''bot-user'', expires_at = Some 5000\<rparr>\<rparr>"

definition world_expired :: world where
  "world_expired =
     world0\<lparr>auth_manager := \<lparr>token = Some ''old'', user_id = Some ''bot-user'', expires_at = Some 0\<rparr>\<rparr>"



subsection \<open>Post Ingestion\<close>

text \<open>The request carries no media: \<^verbatim>\<open>media_url\<close> is absent, \<^verbatim>\<open>null\<close> or the empty list, or there is no body.\<close>

definition no_media :: "json \<Rightarrow> bool" where
  "no_media request_json =
     (case request_json of
        JObj d \<Rightarrow> (case map_of d ''media_url'' of
                    None \<Rightarrow> True
                  | Some v \<Rightarrow> v = JNull \<or> v = JList [])
      | _ \<Rightarrow> \<not> truthy request_json)"

text \<open>The four Post Ingestion handlers, each with its \<^verbatim>\<open>try\<close> block.\<close>

definition post_handler :: "(env \<Rightarrow> json \<Rightarrow> response io) \<Rightarrow> (env \<Rightarrow> json \<Rightarrow> response io) \<Rightarrow> bool" where
  "post_handler H T =
     (H = create_post_by_bot \<and> T = create_post_by_bot_try
      \<or> H = create_post_by_bot_for_approval \<and> T = create_post_by_bot_for_approval_try
      \<or> H = endpoints_create_post_by_bot \<and> T = endpoints_post_try ''posts''
      \<or> H = endpoints_create_post_by_bot_for_approval \<and> T = endpoints_post_try ''twitter_posts'')"

text \<open>An environment whose database refuses every insert, and two request bodies.\<close>

definition env_insert_fails :: env where
  "env_insert_fails =
     env0\<lparr>raises := (\<lambda>tr ev. case ev of TableInsert t r \<Rightarrow> Some (Exception ''duplicate key'')
                               | _ \<Rightarrow> None)\<rparr>"

definition post_with_media :: row where
  "post_with_media = [(''content'', JStr ''hello''), (''twitter_unique_id'', JStr ''t1''),
                      (''media_url'', JList [JStr ''https://b.s3.amazonaws.com/k1''])]"

definition post_without_media :: row where
  "post_without_media = [(''content'', JStr ''hello''), (''twitter_unique_id'', JStr ''t1'')]"

text \<open>
  The body is missing (\<^verbatim>\<open>request.json\<close> is \<^verbatim>\<open>None\<close> or another false value, such as the
  empty dict) or it is a JSON object. Any other body, a non-empty list or string, a
  number, \<^verbatim>\<open>true\<close>, has no fields and no \<^verbatim>\<open>get\<close>.
\<close>

definition absent_or_object :: "json \<Rightarrow> bool" where
  "absent_or_object request_json =
     (case request_json of JObj d \<Rightarrow> True | _ \<Rightarrow> \<not> truthy request_json)"

text \<open>
  What a request with a missing body or a JSON object as body lacks, in the order of the
  three validation tests, as the text of the 400 answer; \<open>None\<close> for a body that passes
  them. A body that is neither missing nor a JSON object is not in the scope of this
  function, which is \<open>None\<close> there: the handlers do not answer such a body with 400.
\<close>

definition missing_item :: "json \<Rightarrow> string option" where
  "missing_item request_json =
     (if \<not> truthy request_json then Some ''No data provided''
      else (case request_json of
              JObj d \<Rightarrow>
                if \<not> truthy (dict_get d ''content'' JNull) then Some ''content is required''
                else if \<not> truthy (dict_get d ''twitter_unique_id'' JNull)
                then Some ''twitter_unique_id is required''
                else None
            | _ \<Rightarrow> None))"

text \<open>
  The first two statements of the handlers that fetch the bot's credentials before they
  look at the request: \<^verbatim>\<open>token = auth_manager.get_token()\<close> and
  \<^verbatim>\<open>user_id = auth_manager.get_user_id()\<close>.
\<close>

definition token_step :: "env \<Rightarrow> (string \<times> string option) io" where
  "token_step env =
     and_then (get_token env) (\<lambda>tok. and_then (get_user_id env) (\<lambda>uid. ret (tok, uid)))"

definition endpoints_token_step :: "env \<Rightarrow> (string \<times> string option) io" where
  "endpoints_token_step env =
     and_then (endpoints_get_token env) (\<lambda>tok.
     and_then (endpoints_get_user_id env) (\<lambda>uid. ret (tok, uid)))"

text \<open>
  The events that are no database statement and no object-store call: a clock reading,
  the password login, and handing the token to the database client.
\<close>

fun token_event :: "event \<Rightarrow> bool" where
  "token_event DatetimeNow = True"
| "token_event SignInWithPassword = True"
| "token_event (PostgrestAuth t) = True"
| "token_event _ = False"

definition new_events :: "world \<Rightarrow> world \<Rightarrow> event list" where
  "new_events w w' = drop (length (trace w)) (trace w')"

text \<open>
  From \<open>w\<close> to \<open>w'\<close> the trace has only grown, by such events, and no table has changed.
\<close>

definition only_token_events :: "world \<Rightarrow> world \<Rightarrow> bool" where
  "only_token_events w w' =
     (take (length (trace w)) (trace w') = trace w
      \<and> list_all token_event (new_events w w')
      \<and> posts w' = posts w \<and> twitter_posts w' = twitter_posts w
      \<and> twitter_id_map w' = twitter_id_map w)"

text \<open>Two bodies that fail validation: one without \<^verbatim>\<open>content\<close>, one without \<^verbatim>\<open>twitter_unique_id\<close>.\<close>

definition media_only :: row where
  "media_only = [(''twitter_unique_id'', JStr ''t1''),
                 (''media_url'', JList [JStr ''https://b.s3.amazonaws.com/k1''])]"

definition content_only :: row where
  "content_only = [(''content'', JStr ''hello'')]"

subsection \<open>The user of a pending post\<close>

text \<open>The mapping table is asked exactly when a \<^verbatim>\<open>twitter_username\<close> is supplied.\<close>

definition lookup_events :: "json \<Rightarrow> event list" where
  "lookup_events u = (if truthy u then [SelectUserId u] else [])"

text \<open>
  The user id in the words of the specification: the default identity when no
  \<^verbatim>\<open>twitter_username\<close> is supplied or the lookup raises; else the \<^verbatim>\<open>user_id\<close> of the first row
  of the mapping table with that username, and the default identity when there is none.
\<close>

definition mapped_user_id :: "env \<Rightarrow> world \<Rightarrow> json \<Rightarrow> json" where
  "mapped_user_id env w u =
     (if \<not> truthy u then JStr DEFAULT_BOT_USER_ID
      else (case raises env (trace w) (SelectUserId u) of
              Some e \<Rightarrow> JStr DEFAULT_BOT_USER_ID
            | None \<Rightarrow>
                (case filter (eq_filter ''username'' u) (twitter_id_map w) of
                   [] \<Rightarrow> JStr DEFAULT_BOT_USER_ID
                 | r # _ \<Rightarrow> dict_get r ''user_id'' JNull)))"

text \<open>
  The \<^verbatim>\<open>media_url\<close> of the body is absent or has a length, so that the message printed
  before the insert does not raise: anything but a non-zero number or \<^verbatim>\<open>True\<close>.
\<close>

definition media_countable :: "row \<Rightarrow> bool" where
  "media_countable d =
     (case dict_get d ''media_url'' (JList []) of
        JNum n \<Rightarrow> n = 0
      | JBool b \<Rightarrow> \<not> b
      | _ \<Rightarrow> True)"




subsection \<open>Approval Transfer\<close>





subsection \<open>Upload URL Issuer\<close>

text \<open>
  A body with the three required fields of an avatar upload: user id \<open>uid\<close>, a file name
  that is the non-empty string \<open>f\<close>, content type \<open>c\<close>.
\<close>

definition avatar_request :: "row \<Rightarrow> json \<Rightarrow> string \<Rightarrow> json \<Rightarrow> bool" where
  "avatar_request d uid f c =
     (dict_get d ''user_id'' JNull = uid \<and> truthy uid
      \<and> dict_get d ''file_name'' JNull = JStr f \<and> f \<noteq> []
      \<and> dict_get d ''content_type'' JNull = c \<and> truthy c)"

text \<open>The same with the fourth field of a general upload, \<^verbatim>\<open>file_type\<close>.\<close>

definition upload_request :: "row \<Rightarrow> json \<Rightarrow> json \<Rightarrow> string \<Rightarrow> json \<Rightarrow> bool" where
  "upload_request d uid file_type f c =
     (avatar_request d uid f c \<and> dict_get d ''file_type'' JNull = file_type \<and> truthy file_type)"

text \<open>Two avatar uploads of one user with the same extension, and a general upload.\<close>

definition avatar_png :: row where
  "avatar_png = [(''user_id'', JStr ''u1''), (''file_name'', JStr ''me.holiday.png''),
                 (''content_type'', JStr ''image/png'')]"

definition avatar_png2 :: row where
  "avatar_png2 = [(''user_id'', JStr ''u1''), (''file_name'', JStr ''other.png''),
                  (''content_type'', JStr ''image/x-png'')]"

definition upload_jpg :: row where
  "upload_jpg = [(''user_id'', JStr ''u1''), (''file_type'', JStr ''image''),
                 (''file_name'', JStr ''a.jpg''), (''content_type'', JStr ''image/jpeg'')]"

text \<open>The state after the first login of a fresh process in the sample environments.\<close>

definition world_logged_in :: world where
  "world_logged_in =
     world0\<lparr>auth_manager := \<lparr>token = Some ''tok'', user_id = Some ''bot-user'',
               expires_at = Some (1000 + hour)\<rparr>,
            trace := [SignInWithPassword, DatetimeNow, DatetimeNow]\<rparr>"

section \<open>Proofs\<close>

lemmas io_defs = ret_def raise_def lift_def and_then_def try_except_def emit_def external_def
  now_def sign_in_def

subsection \<open>Credential Cache\<close>

lemma get_token_cached:
  "cached env w \<Longrightarrow> token (auth_manager w) = Some t \<Longrightarrow>
   get_token env w = (Inr t, w\<lparr>trace := trace w @ [DatetimeNow]\<rparr>)"
  by (auto simp: cached_def no_token_def get_token_def io_defs split: option.splits)

lemma endpoints_get_token_cached:
  "cached env w \<Longrightarrow> token (auth_manager w) = Some t \<Longrightarrow>
   endpoints_get_token env w = (Inr t, w\<lparr>trace := trace w @ [DatetimeNow]\<rparr>)"
  by (auto simp: cached_def no_token_def endpoints_get_token_def io_defs split: option.splits)

lemma get_token_stale:
  "no_token w \<or> expired env w \<Longrightarrow>
   get_token env w = login_and_refresh env (w\<lparr>trace := before_login w\<rparr>)"
  by (auto simp: expired_def no_token_def before_login_def get_token_def io_defs
      split: option.splits)

lemma endpoints_get_token_stale:
  "no_token w \<or> expired env w \<Longrightarrow>
   endpoints_get_token env w = login_and_refresh env (w\<lparr>trace := before_login w\<rparr>)"
  by (auto simp: expired_def no_token_def before_login_def endpoints_get_token_def io_defs
      split: option.splits)

lemma login_once:
  "logins (trace (snd (login_and_refresh env w))) = logins (trace w) + 1"
  by (auto simp: login_and_refresh_def logins_def io_defs set_token_def set_user_id_def
      set_expires_at_def split: option.splits sum.splits)

lemma login_success:
  "sign_in_with_password env (trace w) = Inr (Some (AuthResponse (Some uid) (Some tok))) \<Longrightarrow>
   login_and_refresh env w =
     (Inr tok,
      w\<lparr>auth_manager := \<lparr>token = Some tok, user_id = Some uid,
            expires_at = Some (datetime_now env (trace w @ [SignInWithPassword]) + hour)\<rparr>,
        trace := trace w @ [SignInWithPassword, DatetimeNow]\<rparr>)"
  by (auto simp: login_and_refresh_def io_defs set_token_def set_user_id_def set_expires_at_def
      split: option.splits sum.splits)

lemma login_no_session:
  "no_session (sign_in_with_password env (trace w)) \<Longrightarrow>
   login_and_refresh env w =
     (Inl (Exception ''Bot login failed''), w\<lparr>trace := trace w @ [SignInWithPassword]\<rparr>)"
  by (auto simp: login_and_refresh_def no_session_def io_defs split: option.splits sum.splits)

text \<open>
  Claim C4. \<open>G\<close> is \<^verbatim>\<open>get_token\<close> of either file. While a cached token exists and the
  clock is before the stored expiry, the call returns that token and changes nothing
  but the trace, to which it adds the clock reading and no login. With no cached token,
  or with the clock at or past the expiry, the call makes exactly one password login;
  when the login answers with a user and a session, the call returns the new token and
  the cache holds that token, that user id and, as expiry, the clock reading taken when
  the fields are stored plus one hour; when the login returns no session, the call fails
  with \<^verbatim>\<open>Exception("Bot login failed")\<close>.
\<close>

theorem credential_cache:
  assumes "G = get_token \<or> G = endpoints_get_token"
  shows "(cached env w \<longrightarrow>
            (\<exists>t. token (auth_manager w) = Some t \<and>
                 G env w = (Inr t, w\<lparr>trace := trace w @ [DatetimeNow]\<rparr>)))
       \<and> (no_token w \<or> expired env w \<longrightarrow>
            logins (trace (snd (G env w))) = logins (trace w) + 1
          \<and> (\<forall>uid tok.
                sign_in_with_password env (before_login w)
                  = Inr (Some (AuthResponse (Some uid) (Some tok))) \<longrightarrow>
                G env w =
                  (Inr tok,
                   w\<lparr>auth_manager := \<lparr>token = Some tok, user_id = Some uid,
                         expires_at =
                           Some (datetime_now env (before_login w @ [SignInWithPassword]) + hour)\<rparr>,
                     trace := before_login w @ [SignInWithPassword, DatetimeNow]\<rparr>))
          \<and> (no_session (sign_in_with_password env (before_login w)) \<longrightarrow>
                fst (G env w) = Inl (Exception ''Bot login failed'')))"
proof (intro conjI impI allI)
  assume c: "cached env w"
  then obtain t where t: "token (auth_manager w) = Some t"
    by (auto simp: cached_def no_token_def split: option.splits)
  with c assms show "\<exists>t. token (auth_manager w) = Some t \<and>
       G env w = (Inr t, w\<lparr>trace := trace w @ [DatetimeNow]\<rparr>)"
    using get_token_cached endpoints_get_token_cached by blast
next
  assume s: "no_token w \<or> expired env w"
  then have G: "G env w = login_and_refresh env (w\<lparr>trace := before_login w\<rparr>)"
    using assms get_token_stale endpoints_get_token_stale by blast
  show "logins (trace (snd (G env w))) = logins (trace w) + 1"
    unfolding G login_once by (simp add: before_login_def logins_def)
  {
    fix uid tok
    assume "sign_in_with_password env (before_login w)
              = Inr (Some (AuthResponse (Some uid) (Some tok)))"
    then show "G env w =
                  (Inr tok,
                   w\<lparr>auth_manager := \<lparr>token = Some tok, user_id = Some uid,
                         expires_at =
                           Some (datetime_now env (before_login w @ [SignInWithPassword]) + hour)\<rparr>,
                     trace := before_login w @ [SignInWithPassword, DatetimeNow]\<rparr>)"
      unfolding G by (subst login_success) simp_all
  }
  {
    assume "no_session (sign_in_with_password env (before_login w))"
    then show "fst (G env w) = Inl (Exception ''Bot login failed'')"
      unfolding G by (subst login_no_session) simp_all
  }
qed

lemmas sample_defs = env0_def env_no_session_def world0_def world_cached_def world_expired_def

theorem credential_cache_witness:
  "cached env0 world_cached
   \<and> get_token env0 world_cached = (Inr ''old'', world_cached\<lparr>trace := [DatetimeNow]\<rparr>)
   \<and> expired env0 world_expired
   \<and> logins (trace (snd (endpoints_get_token env0 world_expired))) = 1
   \<and> no_token world0
   \<and> get_token env0 world0 =
       (Inr ''tok'',
        world0\<lparr>auth_manager := \<lparr>token = Some ''tok'', user_id = Some ''bot-user'',
                  expires_at = Some (1000 + hour)\<rparr>,
               trace := [SignInWithPassword, DatetimeNow]\<rparr>)
   \<and> no_session (sign_in_with_password env_no_session (before_login world0))
   \<and> fst (endpoints_get_token env_no_session world0) = Inl (Exception ''Bot login failed'')"
  using credential_cache [of get_token env0 world_cached]
    credential_cache [of endpoints_get_token env0 world_expired]
    credential_cache [of get_token env0 world0]
    credential_cache [of endpoints_get_token env_no_session world0]
  by (simp add: sample_defs cached_def expired_def no_token_def before_login_def no_session_def
      logins_def)

text \<open>
  Claim C10. \<open>G\<close> is \<^verbatim>\<open>get_token\<close> of either file, called with no cached token or with the
  clock at or past the expiry. When the login returns no session, the call fails with
  \<^verbatim>\<open>Exception("Bot login failed")\<close> and the state differs from the one before in the trace
  only: token, user id and expiry are as they were. A following call logs in again,
  provided the clock has not gone back behind its reading of the first call.
\<close>

theorem failed_login_keeps_cache:
  assumes G: "G = get_token \<or> G = endpoints_get_token"
    and stale: "no_token w \<or> expired env w"
    and none: "no_session (sign_in_with_password env (before_login w))"
  shows "G env w =
           (Inl (Exception ''Bot login failed''), w\<lparr>trace := before_login w @ [SignInWithPassword]\<rparr>)
       \<and> auth_manager (snd (G env w)) = auth_manager w
       \<and> (datetime_now env (trace w) \<le> datetime_now env (before_login w @ [SignInWithPassword]) \<longrightarrow>
            logins (trace (snd (G env (snd (G env w))))) = logins (trace w) + 2)"
proof -
  let ?w' = "w\<lparr>trace := before_login w @ [SignInWithPassword]\<rparr>"
  have stale_eq: "\<And>v. no_token v \<or> expired env v \<Longrightarrow>
      G env v = login_and_refresh env (v\<lparr>trace := before_login v\<rparr>)"
    using G get_token_stale endpoints_get_token_stale by blast
  have first: "G env w = (Inl (Exception ''Bot login failed''), ?w')"
    unfolding stale_eq [OF stale] using none by (subst login_no_session) simp_all
  have again: "logins (trace (snd (G env ?w'))) = logins (trace w) + 2"
    if mono: "datetime_now env (trace w) \<le> datetime_now env (before_login w @ [SignInWithPassword])"
  proof -
    have "no_token ?w' \<or> expired env ?w'"
      using stale mono by (auto simp: no_token_def expired_def split: option.splits)
    then have "G env ?w' = login_and_refresh env (?w'\<lparr>trace := before_login ?w'\<rparr>)"
      by (rule stale_eq)
    then show ?thesis
      by (simp add: login_once) (simp add: before_login_def logins_def no_token_def)
  qed
  show ?thesis
    using first again by simp
qed

theorem failed_login_keeps_cache_witness:
  "expired env_no_session world_expired
   \<and> no_session (sign_in_with_password env_no_session (before_login world_expired))
   \<and> get_token env_no_session world_expired =
       (Inl (Exception ''Bot login failed''),
        world_expired\<lparr>trace := [DatetimeNow, SignInWithPassword]\<rparr>)
   \<and> auth_manager (snd (get_token env_no_session world_expired)) = auth_manager world_expired
   \<and> logins (trace (snd (get_token env_no_session (snd (get_token env_no_session world_expired))))) = 2
   \<and> endpoints_get_token env_no_session world0 =
       (Inl (Exception ''Bot login failed''), world0\<lparr>trace := [SignInWithPassword]\<rparr>)"
  using failed_login_keeps_cache [of get_token world_expired env_no_session]
    failed_login_keeps_cache [of endpoints_get_token world0 env_no_session]
  by (simp add: sample_defs expired_def no_token_def before_login_def no_session_def logins_def
      get_token_def login_and_refresh_def io_defs)

subsection \<open>Media Cleanup\<close>

lemma split_from_nonempty: "split_from sep acc s \<noteq> []"
  by (induction sep acc s rule: split_from.induct) auto

lemma split_from_second:
  "py_in sep s \<Longrightarrow> sep \<noteq> [] \<Longrightarrow> \<exists>a k rest. split_from sep acc s = a # k # rest"
proof (induction sep acc s rule: split_from.induct)
  case (1 sep acc)
  then show ?case by simp
next
  case (2 sep acc c cs)
  show ?case
  proof (cases "take (length sep) (c # cs) = sep")
    case True
    obtain y ys where "split_from sep [] (drop (length sep) (c # cs)) = y # ys"
      using split_from_nonempty by (meson list.exhaust)
    then show ?thesis
      using True 2(4) by simp
  next
    case False
    then show ?thesis
      using 2 by auto
  qed
qed

lemma py_split_second:
  "py_in sep s \<Longrightarrow> sep \<noteq> [] \<Longrightarrow> \<exists>a k rest. py_split s sep = a # k # rest"
  unfolding py_split_def by (rule split_from_second)

lemma bucket_prefix_nonempty: "bucket_prefix env \<noteq> []"
  by (simp add: bucket_prefix_def)

lemma delete_one_url:
  "try_except (delete_one env (JStr u)) (\<lambda>e. ret ()) w =
     (Inr (), w\<lparr>trace := trace w @
        (if py_in (bucket_prefix env) u
         then [DeleteObject (AWS_S3_BUCKET env) (py_split u (bucket_prefix env) ! 1)] else [])\<rparr>)"
proof (cases "py_in (bucket_prefix env) u")
  case True
  then obtain a k rest where "py_split u (bucket_prefix env) = a # k # rest"
    using py_split_second bucket_prefix_nonempty by blast
  with True show ?thesis
    by (simp add: delete_one_def io_defs split: option.splits)
next
  case False
  then show ?thesis
    by (simp add: delete_one_def io_defs)
qed

lemma delete_each_urls:
  "delete_each env (map JStr urls) w =
     (Inr (), w\<lparr>trace := trace w @
        map (\<lambda>u. DeleteObject (AWS_S3_BUCKET env) (py_split u (bucket_prefix env) ! 1))
          (filter (py_in (bucket_prefix env)) urls)\<rparr>)"
proof (induction urls arbitrary: w)
  case Nil
  then show ?case by (simp add: ret_def)
next
  case (Cons u urls)
  show ?case
    by (simp add: and_then_def delete_one_url Cons.IH)
qed

lemma delete_one_caught: "fst (try_except (delete_one env v) (\<lambda>e. ret ()) w) = Inr ()"
  by (simp add: try_except_def ret_def split: prod.splits sum.splits)

lemma delete_each_returns: "fst (delete_each env vs w) = Inr ()"
proof (induction vs arbitrary: w)
  case Nil
  then show ?case by (simp add: ret_def)
next
  case (Cons v vs)
  obtain w' where "try_except (delete_one env v) (\<lambda>e. ret ()) w = (Inr (), w')"
    using delete_one_caught [of env v w] by (cases "try_except (delete_one env v) (\<lambda>e. ret ()) w") auto
  then show ?case
    by (simp add: and_then_def Cons.IH)
qed

lemma delete_media_returns: "fst (delete_media_from_storage env media_urls w) = Inr ()"
  by (simp add: delete_media_from_storage_def try_except_def ret_def split: prod.splits sum.splits)



subsection \<open>Post Ingestion: failure and cleanup\<close>

lemma post_handler_unfold:
  "post_handler H T \<Longrightarrow> H env rj = try_except (T env rj) (post_failed env rj)"
  unfolding post_handler_def
  by (auto simp: create_post_by_bot_def create_post_by_bot_for_approval_def
      endpoints_create_post_by_bot_def endpoints_create_post_by_bot_for_approval_def)

lemma post_failed_media:
  assumes "map_of d ''media_url'' = Some (JList urls)" "urls \<noteq> []"
  shows "post_failed env (JObj d) e w =
           (Inr (failure (str_of_error e) 500), snd (delete_media_from_storage env (JList urls) w))"
proof -
  have d: "d \<noteq> []" using assms by auto
  obtain w' where w': "delete_media_from_storage env (JList urls) w = (Inr (), w')"
    using delete_media_returns [of env "JList urls" w]
    by (cases "delete_media_from_storage env (JList urls) w") auto
  show ?thesis
    using assms d w'
    by (simp add: post_failed_def py_get_def dict_get_def py_len_def io_defs)
qed

lemma post_failed_no_media:
  "no_media rj \<Longrightarrow> post_failed env rj e w = (Inr (failure (str_of_error e) 500), w)"
  by (cases rj)
    (auto simp: no_media_def post_failed_def py_get_def dict_get_def io_defs split: option.splits)

lemmas eval_defs = get_token_def endpoints_get_token_def get_user_id_def endpoints_get_user_id_def
  login_and_refresh_def set_token_def set_user_id_def set_expires_at_def validated_def
  print_media_count_def table_insert_def store_def post_failed_def delete_media_from_storage_def
  delete_one_def py_get_def py_len_def py_iter_def dict_get_def bucket_prefix_def bucket_text_def
  py_split_def opt_str_def post_data_def endpoints_post_data_def time_time_def

subsection \<open>Post Ingestion: validation\<close>

lemma only_token_events_iff:
  "only_token_events w w' \<longleftrightarrow>
     (\<exists>evs. trace w' = trace w @ evs \<and> list_all token_event evs)
     \<and> posts w' = posts w \<and> twitter_posts w' = twitter_posts w
     \<and> twitter_id_map w' = twitter_id_map w"
proof -
  have "(take (length (trace w)) (trace w') = trace w \<and> list_all token_event (new_events w w'))
        \<longleftrightarrow> (\<exists>evs. trace w' = trace w @ evs \<and> list_all token_event evs)"
    unfolding new_events_def
    by (metis append_eq_conv_conj)
  then show ?thesis
    unfolding only_token_events_def by blast
qed

lemma only_token_events_refl: "only_token_events w w"
  by (simp add: only_token_events_iff)

lemma only_token_events_trans:
  "only_token_events w w1 \<Longrightarrow> only_token_events w1 w2 \<Longrightarrow> only_token_events w w2"
  unfolding only_token_events_iff by auto

lemma login_and_refresh_frame:
  "login_and_refresh env w = (r, w') \<Longrightarrow> only_token_events w w'"
  unfolding only_token_events_iff
  by (auto simp: login_and_refresh_def io_defs set_token_def set_user_id_def set_expires_at_def
      split: option.splits sum.splits)

lemma get_token_frame: "get_token env w = (r, w') \<Longrightarrow> only_token_events w w'"
  unfolding get_token_def
  by (auto simp: io_defs only_token_events_refl split: option.splits if_splits
      dest!: login_and_refresh_frame)
    (auto simp: only_token_events_iff)

lemma endpoints_get_token_frame:
  "endpoints_get_token env w = (r, w') \<Longrightarrow> only_token_events w w'"
  unfolding endpoints_get_token_def
  by (auto simp: io_defs only_token_events_refl split: option.splits if_splits
      dest!: login_and_refresh_frame)
    (auto simp: only_token_events_iff)

lemma token_step_frame: "token_step env w = (r, w') \<Longrightarrow> only_token_events w w'"
  unfolding token_step_def get_user_id_def
  by (auto simp: io_defs split: prod.splits sum.splits
      dest!: get_token_frame intro: only_token_events_trans)

lemma endpoints_token_step_frame:
  "endpoints_token_step env w = (r, w') \<Longrightarrow> only_token_events w w'"
  unfolding endpoints_token_step_def endpoints_get_user_id_def
  by (auto simp: io_defs split: prod.splits sum.splits
      dest!: endpoints_get_token_frame intro: only_token_events_trans)

lemma validated_missing:
  "missing_item rj = Some msg \<Longrightarrow> validated rj rest = ret (failure msg 400)"
  by (cases rj) (auto simp: missing_item_def validated_def split: if_splits)

lemma create_post_by_bot_try_missing:
  "missing_item rj = Some msg \<Longrightarrow>
   create_post_by_bot_try env rj w =
     (case token_step env w of
        (Inl e, w1) \<Rightarrow> (Inl e, w1)
      | (Inr (tok, uid), w1) \<Rightarrow> (Inr (failure msg 400), w1\<lparr>trace := trace w1 @ [PostgrestAuth tok]\<rparr>))"
  by (simp add: create_post_by_bot_try_def token_step_def validated_missing io_defs
      split: prod.splits sum.splits)

lemma endpoints_post_try_missing:
  "missing_item rj = Some msg \<Longrightarrow>
   endpoints_post_try table env rj w =
     (case endpoints_token_step env w of
        (Inl e, w1) \<Rightarrow> (Inl e, w1)
      | (Inr (tok, uid), w1) \<Rightarrow> (Inr (failure msg 400), w1\<lparr>trace := trace w1 @ [PostgrestAuth tok]\<rparr>))"
  by (simp add: endpoints_post_try_def endpoints_token_step_def validated_missing io_defs
      split: prod.splits sum.splits)

lemma approval_try_missing:
  "missing_item rj = Some msg \<Longrightarrow>
   create_post_by_bot_for_approval env rj w = (Inr (failure msg 400), w)"
  by (simp add: create_post_by_bot_for_approval_def create_post_by_bot_for_approval_try_def
      validated_missing io_defs)

lemma and_then_Inr:
  "and_then m f w = (Inr x, w') \<Longrightarrow> \<exists>y w1. m w = (Inr y, w1) \<and> f y w1 = (Inr x, w')"
  by (auto simp: and_then_def split: prod.splits sum.splits)

lemma post_failed_status:
  assumes "post_failed env rj e w = (Inr (b, s), w')"
  shows "s = 500"
proof -
  from assms obtain w2 where "ret (failure (str_of_error e) 500) w2 = (Inr (b, s), w')"
    unfolding post_failed_def by (blast dest!: and_then_Inr)
  then show ?thesis
    by (simp add: ret_def failure_def)
qed

text \<open>
  Claim C2, as amended. Let the body of the request be missing, or be a JSON object
  that lacks its \<^verbatim>\<open>content\<close> or its \<^verbatim>\<open>twitter_unique_id\<close>, and let \<open>msg\<close> name what is
  lacking. The pending handler of \<^verbatim>\<open>src/api/index.py\<close> validates first: it answers 400
  with \<open>msg\<close> and the state is untouched. The direct handler of \<^verbatim>\<open>src/api/index.py\<close> and
  both handlers of \<^verbatim>\<open>src/endpoints.py\<close> fetch the bot's token and user id first; whenever
  that step succeeds they answer 400 with \<open>msg\<close>, no table has changed, and the trace has
  grown by clock readings, logins and the token hand-over only: no insert, no deletion.
\<close>

theorem validation_failure:
  assumes obj: "absent_or_object request_json"
    and m: "missing_item request_json = Some msg"
  shows "create_post_by_bot_for_approval env request_json w = (Inr (failure msg 400), w)
       \<and> (\<forall>tok uid w1. token_step env w = (Inr (tok, uid), w1) \<longrightarrow>
            create_post_by_bot env request_json w
              = (Inr (failure msg 400), w1\<lparr>trace := trace w1 @ [PostgrestAuth tok]\<rparr>)
            \<and> only_token_events w (w1\<lparr>trace := trace w1 @ [PostgrestAuth tok]\<rparr>))
       \<and> (\<forall>tok uid w1. endpoints_token_step env w = (Inr (tok, uid), w1) \<longrightarrow>
            endpoints_create_post_by_bot env request_json w
              = (Inr (failure msg 400), w1\<lparr>trace := trace w1 @ [PostgrestAuth tok]\<rparr>)
            \<and> endpoints_create_post_by_bot_for_approval env request_json w
              = (Inr (failure msg 400), w1\<lparr>trace := trace w1 @ [PostgrestAuth tok]\<rparr>)
            \<and> only_token_events w (w1\<lparr>trace := trace w1 @ [PostgrestAuth tok]\<rparr>))"
proof (intro conjI allI impI)
  show "create_post_by_bot_for_approval env request_json w = (Inr (failure msg 400), w)"
    using m by (rule approval_try_missing)
next
  fix tok uid w1
  assume t: "token_step env w = (Inr (tok, uid), w1)"
  show "create_post_by_bot env request_json w
          = (Inr (failure msg 400), w1\<lparr>trace := trace w1 @ [PostgrestAuth tok]\<rparr>)"
    by (simp add: create_post_by_bot_def try_except_def create_post_by_bot_try_missing [OF m] t)
  have "only_token_events w1 (w1\<lparr>trace := trace w1 @ [PostgrestAuth tok]\<rparr>)"
    by (simp add: only_token_events_iff)
  with token_step_frame [OF t]
  show "only_token_events w (w1\<lparr>trace := trace w1 @ [PostgrestAuth tok]\<rparr>)"
    by (rule only_token_events_trans)
next
  fix tok uid w1
  assume t: "endpoints_token_step env w = (Inr (tok, uid), w1)"
  show "endpoints_create_post_by_bot env request_json w
          = (Inr (failure msg 400), w1\<lparr>trace := trace w1 @ [PostgrestAuth tok]\<rparr>)"
    by (simp add: endpoints_create_post_by_bot_def try_except_def
        endpoints_post_try_missing [OF m] t)
  show "endpoints_create_post_by_bot_for_approval env request_json w
          = (Inr (failure msg 400), w1\<lparr>trace := trace w1 @ [PostgrestAuth tok]\<rparr>)"
    by (simp add: endpoints_create_post_by_bot_for_approval_def try_except_def
        endpoints_post_try_missing [OF m] t)
  have "only_token_events w1 (w1\<lparr>trace := trace w1 @ [PostgrestAuth tok]\<rparr>)"
    by (simp add: only_token_events_iff)
  with endpoints_token_step_frame [OF t]
  show "only_token_events w (w1\<lparr>trace := trace w1 @ [PostgrestAuth tok]\<rparr>)"
    by (rule only_token_events_trans)
qed

lemma try_missing_frame:
  assumes m: "missing_item rj = Some msg"
    and T: "T = create_post_by_bot_try \<or> T = endpoints_post_try table"
    and r: "try_except (T env rj) (post_failed env rj) w = (Inr (body, 400), w')"
  shows "only_token_events w w'"
proof -
  obtain S where S: "S = token_step \<or> S = endpoints_token_step"
    and eq: "T env rj w =
       (case S env w of
          (Inl e, w1) \<Rightarrow> (Inl e, w1)
        | (Inr (tok, uid), w1) \<Rightarrow>
            (Inr (failure msg 400), w1\<lparr>trace := trace w1 @ [PostgrestAuth tok]\<rparr>))"
    using T create_post_by_bot_try_missing [OF m] endpoints_post_try_missing [OF m] by blast
  obtain x w1 where x: "S env w = (x, w1)" by (cases "S env w") auto
  have f: "only_token_events w w1"
    using S x token_step_frame endpoints_token_step_frame by blast
  show ?thesis
  proof (cases x)
    case (Inl e)
    then have "post_failed env rj e w1 = (Inr (body, 400), w')"
      using r eq x by (simp add: try_except_def)
    then show ?thesis
      using post_failed_status by fastforce
  next
    case (Inr p)
    obtain tok uid where p: "p = (tok, uid)" by (cases p) auto
    have "w' = w1\<lparr>trace := trace w1 @ [PostgrestAuth tok]\<rparr>"
      using r eq x Inr p by (simp add: try_except_def)
    moreover have "only_token_events w1 (w1\<lparr>trace := trace w1 @ [PostgrestAuth tok]\<rparr>)"
      by (simp add: only_token_events_iff)
    ultimately show ?thesis
      using f only_token_events_trans by blast
  qed
qed

text \<open>
  Claim C3, as amended. Let the request lack its body, its \<^verbatim>\<open>content\<close> or its
  \<^verbatim>\<open>twitter_unique_id\<close>, and let one of the four handlers answer it with status 400. Then
  no database statement and no object-store call has been made and no table has changed;
  what can precede the answer is the token step of the handlers that run it first (clock
  readings, the password login, the token hand-over). The pending handler of
  \<^verbatim>\<open>src/api/index.py\<close> leaves the state as it was.
\<close>

theorem validation_before_storage:
  assumes m: "missing_item request_json = Some msg"
    and H: "H = create_post_by_bot \<or> H = create_post_by_bot_for_approval
            \<or> H = endpoints_create_post_by_bot \<or> H = endpoints_create_post_by_bot_for_approval"
    and r: "H env request_json w = (Inr (body, 400), w')"
  shows "only_token_events w w' \<and> (H = create_post_by_bot_for_approval \<longrightarrow> w' = w)"
proof -
  have a: "w' = w" if "H = create_post_by_bot_for_approval"
    using that r approval_try_missing [OF m, of env w] by simp
  have b: "only_token_events w w'"
    if "H = create_post_by_bot \<or> H = endpoints_create_post_by_bot
        \<or> H = endpoints_create_post_by_bot_for_approval"
  proof -
    from that show ?thesis
    proof (elim disjE)
      assume "H = create_post_by_bot"
      then show ?thesis
        using r try_missing_frame [OF m, where T = create_post_by_bot_try and table = "''posts''"]
        by (simp add: create_post_by_bot_def)
    next
      assume "H = endpoints_create_post_by_bot"
      then show ?thesis
        using r try_missing_frame [OF m, where T = "endpoints_post_try ''posts''" and table = "''posts''"]
        by (simp add: endpoints_create_post_by_bot_def)
    next
      assume "H = endpoints_create_post_by_bot_for_approval"
      then show ?thesis
        using r try_missing_frame [OF m, where T = "endpoints_post_try ''twitter_posts''"
            and table = "''twitter_posts''"]
        by (simp add: endpoints_create_post_by_bot_for_approval_def)
    qed
  qed
  show ?thesis
    using H a b only_token_events_refl by blast
qed


text \<open>
  The claim as stated fails in two places. Where the token step fails: the direct
  handler, given a body without \<^verbatim>\<open>content\<close> and a login that returns no session, answers
  500 and deletes the request's media. And for a body that is neither missing nor a JSON
  object: the list \<^verbatim>\<open>[1]\<close> has no \<^verbatim>\<open>content\<close>, and the pending handler of
  \<^verbatim>\<open>src/api/index.py\<close> raises \<^verbatim>\<open>AttributeError\<close> in its \<^verbatim>\<open>try\<close> block and again in its
  \<^verbatim>\<open>except\<close> block, so the exception leaves the handler and no 400 is answered.
\<close>

theorem validation_failure_counterexample:
  "missing_item (JObj media_only) = Some ''content is required''
   \<and> create_post_by_bot env_no_session (JObj media_only) world0
       = (Inr (failure ''Bot login failed'' 500),
          world0\<lparr>trace := [SignInWithPassword, DeleteObject (Some ''b'') ''k1'']\<rparr>)
   \<and> create_post_by_bot_for_approval env0 (JList [JNum 1]) world0
       = (Inl (no_attribute (JList [JNum 1]) ''get''), world0)"
  by (simp add: missing_item_def media_only_def create_post_by_bot_def create_post_by_bot_try_def
      create_post_by_bot_for_approval_def create_post_by_bot_for_approval_try_def
      sample_defs eval_defs io_defs failure_def)

theorem validation_failure_witness:
  "absent_or_object (JObj content_only)
   \<and> missing_item (JObj content_only) = Some ''twitter_unique_id is required''
   \<and> create_post_by_bot_for_approval env0 (JObj content_only) world0
       = (Inr (failure ''twitter_unique_id is required'' 400), world0)
   \<and> token_step env0 world0 = (Inr (''tok'', Some ''bot-user''), world_logged_in)
   \<and> create_post_by_bot env0 (JObj content_only) world0
       = (Inr (failure ''twitter_unique_id is required'' 400),
          world_logged_in\<lparr>trace := trace world_logged_in @ [PostgrestAuth ''tok'']\<rparr>)
   \<and> endpoints_token_step env0 world0 = (Inr (''tok'', Some ''bot-user''), world_logged_in)
   \<and> endpoints_create_post_by_bot env0 (JObj content_only) world0
       = (Inr (failure ''twitter_unique_id is required'' 400),
          world_logged_in\<lparr>trace := trace world_logged_in @ [PostgrestAuth ''tok'']\<rparr>)
   \<and> endpoints_create_post_by_bot_for_approval env0 (JObj content_only) world0
       = (Inr (failure ''twitter_unique_id is required'' 400),
          world_logged_in\<lparr>trace := trace world_logged_in @ [PostgrestAuth ''tok'']\<rparr>)
   \<and> absent_or_object JNull
   \<and> create_post_by_bot_for_approval env0 JNull world0
       = (Inr (failure ''No data provided'' 400), world0)"
proof -
  have obj: "absent_or_object (JObj content_only)" "absent_or_object JNull"
    by (simp_all add: absent_or_object_def)
  have m: "missing_item (JObj content_only) = Some ''twitter_unique_id is required''"
    "missing_item JNull = Some ''No data provided''"
    by (simp_all add: missing_item_def content_only_def dict_get_def)
  have ts: "token_step env0 world0 = (Inr (''tok'', Some ''bot-user''), world_logged_in)"
    and ets: "endpoints_token_step env0 world0 = (Inr (''tok'', Some ''bot-user''), world_logged_in)"
    by (simp_all add: token_step_def endpoints_token_step_def world_logged_in_def
        sample_defs get_token_def endpoints_get_token_def get_user_id_def endpoints_get_user_id_def
        login_and_refresh_def set_token_def set_user_id_def set_expires_at_def io_defs hour_def)
  show ?thesis
    using validation_failure [OF obj(1) m(1), of env0 world0]
      validation_failure [OF obj(2) m(2), of env0 world0]
    by (simp add: obj m ts ets)
qed

text \<open>
  The claim as stated fails in the direct handler: with no cached token, a body without
  \<^verbatim>\<open>twitter_unique_id\<close> is answered 400 after a password login.
\<close>

theorem validation_before_storage_counterexample:
  "missing_item (JObj content_only) = Some ''twitter_unique_id is required''
   \<and> create_post_by_bot env0 (JObj content_only) world0
       = (Inr (failure ''twitter_unique_id is required'' 400),
          world0\<lparr>auth_manager := \<lparr>token = Some ''tok'', user_id = Some ''bot-user'',
                    expires_at = Some (1000 + hour)\<rparr>,
                 trace := [SignInWithPassword, DatetimeNow, DatetimeNow, PostgrestAuth ''tok'']\<rparr>)"
  by (simp add: missing_item_def content_only_def create_post_by_bot_def create_post_by_bot_try_def
      sample_defs eval_defs io_defs failure_def hour_def)

theorem validation_before_storage_witness:
  "missing_item JNull = Some ''No data provided''
   \<and> endpoints_create_post_by_bot env0 JNull world_cached
       = (Inr (failure ''No data provided'' 400),
          world_cached\<lparr>trace := [DatetimeNow, DatetimeNow, PostgrestAuth ''old'']\<rparr>)
   \<and> only_token_events world_cached
        (world_cached\<lparr>trace := [DatetimeNow, DatetimeNow, PostgrestAuth ''old'']\<rparr>)
   \<and> create_post_by_bot_for_approval env0 JNull world0 = (Inr (failure ''No data provided'' 400), world0)"
proof -
  have a: "endpoints_create_post_by_bot env0 JNull world_cached
       = (Inr (failure ''No data provided'' 400),
          world_cached\<lparr>trace := [DatetimeNow, DatetimeNow, PostgrestAuth ''old'']\<rparr>)"
    by (simp add: endpoints_create_post_by_bot_def endpoints_post_try_def
        sample_defs eval_defs io_defs failure_def)
  have b: "create_post_by_bot_for_approval env0 JNull world0
       = (Inr (failure ''No data provided'' 400), world0)"
    by (simp add: create_post_by_bot_for_approval_def create_post_by_bot_for_approval_try_def
        eval_defs io_defs)
  have m: "missing_item JNull = Some ''No data provided''"
    by (simp add: missing_item_def)
  show ?thesis
    using m a b
      validation_before_storage [where H = endpoints_create_post_by_bot and env = env0,
        OF m _ a [unfolded failure_def]]
      validation_before_storage [where H = create_post_by_bot_for_approval and env = env0,
        OF m _ b [unfolded failure_def]]
    by simp
qed

subsection \<open>Post Ingestion: the user of a pending post\<close>

lemma resolve_user_id_spec:
  "resolve_user_id env u w =
     (Inr (mapped_user_id env w u), w\<lparr>trace := trace w @ lookup_events u\<rparr>)"
  by (auto simp: resolve_user_id_def mapped_user_id_def lookup_events_def select_user_id_def
      dict_item_def io_defs split: option.splits list.splits)

lemma validated_ok:
  "truthy (dict_get d ''content'' JNull) \<Longrightarrow> truthy (dict_get d ''twitter_unique_id'' JNull) \<Longrightarrow>
   validated (JObj d) rest = rest d"
  by (auto simp: validated_def dict_get_def)

lemma print_media_count_ok:
  "media_countable d \<Longrightarrow> print_media_count (dict_get d ''media_url'' (JList [])) w = (Inr (), w)"
  by (auto simp: media_countable_def print_media_count_def py_len_def io_defs split: json.splits)




subsection \<open>Approval Transfer\<close>










subsection \<open>Upload URL Issuer\<close>

lemma digit_char_inj:
  assumes "a < 10" "b < 10" "digit_char a = digit_char b"
  shows "a = b"
proof -
  have "distinct ''0123456789''" by simp
  then show ?thesis
    using assms unfolding digit_char_def
    by (simp add: nth_eq_iff_index_eq)
qed

lemma digit_char_digit: "digit_char d \<in> set ''0123456789''"
  unfolding digit_char_def by (rule nth_mem) simp

lemma str_nat_digits: "set (str_nat n) \<subseteq> set ''0123456789''"
proof (induction n rule: str_nat.induct)
  case (1 n)
  show ?case
  proof (cases "n < 10")
    case True
    then show ?thesis
      using digit_char_digit [of n] by (subst str_nat.simps) simp
  next
    case False
    then show ?thesis
      using 1 digit_char_digit [of "n mod 10"] by (subst str_nat.simps) simp
  qed
qed

lemma str_nat_nonempty: "str_nat n \<noteq> []"
  by (subst str_nat.simps) simp

lemma str_nat_inj: "str_nat n = str_nat m \<Longrightarrow> n = m"
proof (induction n arbitrary: m rule: str_nat.induct)
  case (1 n)
  show ?case
  proof (cases "n < 10")
    case n: True
    show ?thesis
    proof (cases "m < 10")
      case True
      then show ?thesis
        using n "1.prems" digit_char_inj
        by (subst (asm) str_nat.simps, subst (asm) (2) str_nat.simps) simp
    next
      case False
      then show ?thesis
        using n "1.prems" str_nat_nonempty [of "m div 10"]
        by (subst (asm) str_nat.simps, subst (asm) (2) str_nat.simps) simp
    qed
  next
    case n: False
    show ?thesis
    proof (cases "m < 10")
      case True
      then show ?thesis
        using n "1.prems" str_nat_nonempty [of "n div 10"]
        by (subst (asm) str_nat.simps, subst (asm) (2) str_nat.simps) simp
    next
      case False
      have "str_nat (n div 10) @ [digit_char (n mod 10)]
            = str_nat (m div 10) @ [digit_char (m mod 10)]"
        using n False "1.prems"
        by (subst (asm) str_nat.simps, subst (asm) (2) str_nat.simps) simp
      then have a: "str_nat (n div 10) = str_nat (m div 10)"
        and b: "digit_char (n mod 10) = digit_char (m mod 10)"
        by simp_all
      have "n div 10 = m div 10"
        using "1.IH" [OF n a] .
      moreover have "n mod 10 = m mod 10"
        using b digit_char_inj [of "n mod 10" "m mod 10"] by simp
      ultimately show ?thesis
        by (metis div_mult_mod_eq)
    qed
  qed
qed

lemma str_nat_no_minus: "str_nat n \<noteq> CHR ''-'' # s"
proof
  assume "str_nat n = CHR ''-'' # s"
  then have "CHR ''-'' \<in> set (str_nat n)" by simp
  then show False
    using str_nat_digits [of n] by auto
qed

lemma str_int_inj:
  assumes "str_int i = str_int j"
  shows "i = j"
proof (cases "i < 0")
  case i: True
  show ?thesis
  proof (cases "j < 0")
    case True
    with i assms have "str_nat (nat (- i)) = str_nat (nat (- j))"
      by (simp add: str_int_def)
    then have "nat (- i) = nat (- j)" by (rule str_nat_inj)
    with i True show ?thesis by simp
  next
    case False
    with i assms have "str_nat (nat j) = CHR ''-'' # str_nat (nat (- i))"
      by (simp add: str_int_def)
    then show ?thesis using str_nat_no_minus by blast
  qed
next
  case i: False
  show ?thesis
  proof (cases "j < 0")
    case True
    with i assms have "str_nat (nat i) = CHR ''-'' # str_nat (nat (- j))"
      by (simp add: str_int_def)
    then show ?thesis using str_nat_no_minus by blast
  next
    case False
    with i assms have "str_nat (nat i) = str_nat (nat j)"
      by (simp add: str_int_def)
    then have "nat i = nat j" by (rule str_nat_inj)
    with i False show ?thesis by simp
  qed
qed

lemma str_int_no_dot: "CHR ''.'' \<notin> set (str_int i)"
  using str_nat_digits [of "nat i"] str_nat_digits [of "nat (- i)"]
  by (auto simp: str_int_def)

lemma split_at_first:
  "xs @ c # ys = xs' @ c # ys' \<Longrightarrow> c \<notin> set xs \<Longrightarrow> c \<notin> set xs' \<Longrightarrow> xs = xs'"
proof (induction xs arbitrary: xs')
  case Nil
  then show ?case by (cases xs') auto
next
  case (Cons x xs)
  then show ?case by (cases xs') auto
qed

lemma upload_s3_key_inj:
  assumes "upload_s3_key env ft uid t1 e1 = upload_s3_key env ft uid t2 e2"
  shows "t1 = t2"
proof -
  have "str_int t1 @ CHR ''.'' # e1 = str_int t2 @ CHR ''.'' # e2"
    using assms by (simp add: upload_s3_key_def)
  then have "str_int t1 = str_int t2"
    by (rule split_at_first) (rule str_int_no_dot)+
  then show ?thesis
    by (rule str_int_inj)
qed


lemma avatar_upload_url_for_ok:
  "avatar_request d uid f c \<Longrightarrow>
   avatar_upload_url_for env d = presign env (avatar_s3_key env uid (file_ext f)) c"
  by (auto simp: avatar_request_def avatar_upload_url_for_def file_ext_of_def io_defs Let_def)

lemma upload_url_for_ok:
  "upload_request d uid ft f c \<Longrightarrow>
   upload_url_for env d w =
     presign env (upload_s3_key env ft uid (time_millis env (trace w)) (file_ext f)) c
       (w\<lparr>trace := trace w @ [TimeTime]\<rparr>)"
  by (auto simp: upload_request_def avatar_request_def upload_url_for_def file_ext_of_def
      time_time_def io_defs Let_def)

lemma presign_trace:
  "trace (snd (try_except (presign env k c) upload_failed w))
     = trace w @ [GeneratePresignedUrl (AWS_S3_BUCKET env) k c]"
  by (simp add: presign_def upload_failed_def io_defs split: option.splits)

lemma presign_ok:
  "raises env (trace w) (GeneratePresignedUrl (AWS_S3_BUCKET env) k c) = None \<Longrightarrow>
   fst (try_except (presign env k c) upload_failed w)
     = Inr (JObj [(''upload_url'', JStr (presigned_url env (AWS_S3_BUCKET env) k c)),
                  (''public_url'', JStr (''https://'' @ bucket_prefix env @ k)),
                  (''s3_key'', JStr k)], 200)"
  by (simp add: presign_def upload_failed_def io_defs)

lemma request_nonempty: "avatar_request d uid f c \<Longrightarrow> truthy (JObj d)"
  by (auto simp: avatar_request_def dict_get_def)

lemma avatar_handlers:
  assumes "H = get_avatar_upload_url \<or> H = endpoints_get_avatar_upload_url"
    and "avatar_request d uid f c"
  shows "H env (JObj d) = try_except (presign env (avatar_s3_key env uid (file_ext f)) c) upload_failed"
  using assms request_nonempty [OF assms(2)]
  by (auto simp: get_avatar_upload_url_def endpoints_get_avatar_upload_url_def or_empty_def
      avatar_upload_url_for_ok)

lemma upload_handlers:
  assumes "H = get_upload_url \<or> H = endpoints_get_upload_url"
    and "upload_request d uid ft f c"
  shows "H env (JObj d) w =
           try_except (presign env (upload_s3_key env ft uid (time_millis env (trace w)) (file_ext f)) c)
             upload_failed (w\<lparr>trace := trace w @ [TimeTime]\<rparr>)"
proof -
  have "truthy (JObj d)"
    using assms(2) request_nonempty by (auto simp: upload_request_def)
  then show ?thesis
    using assms(1) upload_url_for_ok [OF assms(2)]
    by (auto simp: get_upload_url_def endpoints_get_upload_url_def or_empty_def try_except_def)
qed

text \<open>
  Claim C8. \<open>H\<close> is \<^verbatim>\<open>get_avatar_upload_url\<close> of either file. Two avatar uploads with the
  same user id and the same file extension \<open>ext\<close>, whatever their file names, content
  types and the states they run in, compute the same storage key, namely
  \<^verbatim>\<open>avatars/{user_id}/avatar.{ext}\<close>: it is the key handed to
  \<^verbatim>\<open>generate_presigned_url\<close>, the only outside call of the handler, and the \<^verbatim>\<open>s3_key\<close> of
  the 200 answer when that call returns.
\<close>

theorem avatar_key_pure:
  assumes "H = get_avatar_upload_url \<or> H = endpoints_get_avatar_upload_url"
    and "avatar_request d1 uid f1 c1" and "avatar_request d2 uid f2 c2"
    and "file_ext f1 = ext" and "file_ext f2 = ext"
    and "key = ''avatars/'' @ py_str (repr env) uid @ ''/avatar.'' @ ext"
  shows "trace (snd (H env (JObj d1) w1))
           = trace w1 @ [GeneratePresignedUrl (AWS_S3_BUCKET env) key c1]
       \<and> trace (snd (H env (JObj d2) w2))
           = trace w2 @ [GeneratePresignedUrl (AWS_S3_BUCKET env) key c2]
       \<and> (raises env (trace w1) (GeneratePresignedUrl (AWS_S3_BUCKET env) key c1) = None \<longrightarrow>
            fst (H env (JObj d1) w1)
              = Inr (JObj [(''upload_url'', JStr (presigned_url env (AWS_S3_BUCKET env) key c1)),
                           (''public_url'', JStr (''https://'' @ bucket_prefix env @ key)),
                           (''s3_key'', JStr key)], 200))"
proof -
  have k: "avatar_s3_key env uid ext = key"
    using assms(6) by (simp add: avatar_s3_key_def)
  show ?thesis
    using assms(4,5)
    by (simp add: avatar_handlers [OF assms(1,2)] avatar_handlers [OF assms(1,3)] k
        presign_trace presign_ok)
qed

text \<open>
  Claim C9. \<open>H\<close> is \<^verbatim>\<open>get_upload_url\<close> of either file. Two general uploads for the same
  user and file type read the millisecond clock once each, \<open>t1\<close> and \<open>t2\<close>, and hand the
  keys \<open>key1\<close> and \<open>key2\<close> to \<^verbatim>\<open>generate_presigned_url\<close>. When the two readings differ the
  keys differ, whatever the file names; when the readings are equal and the extensions
  are equal the keys are the same.
\<close>

theorem upload_key_timestamp:
  assumes "H = get_upload_url \<or> H = endpoints_get_upload_url"
    and "upload_request d1 uid file_type f1 c1" and "upload_request d2 uid file_type f2 c2"
    and "t1 = time_millis env (trace w1)" and "t2 = time_millis env (trace w2)"
    and "key1 = upload_s3_key env file_type uid t1 (file_ext f1)"
    and "key2 = upload_s3_key env file_type uid t2 (file_ext f2)"
  shows "trace (snd (H env (JObj d1) w1))
           = trace w1 @ [TimeTime, GeneratePresignedUrl (AWS_S3_BUCKET env) key1 c1]
       \<and> trace (snd (H env (JObj d2) w2))
           = trace w2 @ [TimeTime, GeneratePresignedUrl (AWS_S3_BUCKET env) key2 c2]
       \<and> (t1 \<noteq> t2 \<longrightarrow> key1 \<noteq> key2)
       \<and> (t1 = t2 \<and> file_ext f1 = file_ext f2 \<longrightarrow> key1 = key2)"
proof -
  have "t1 = t2" if "key1 = key2"
    using that assms(6,7) upload_s3_key_inj by blast
  then show ?thesis
    using assms(4-7)
    by (auto simp: upload_handlers [OF assms(1,2)] upload_handlers [OF assms(1,3)] presign_trace)
qed


theorem avatar_key_pure_witness:
  "avatar_request avatar_png (JStr ''u1'') ''me.holiday.png'' (JStr ''image/png'')
   \<and> avatar_request avatar_png2 (JStr ''u1'') ''other.png'' (JStr ''image/x-png'')
   \<and> file_ext ''me.holiday.png'' = ''png'' \<and> file_ext ''other.png'' = ''png''
   \<and> trace (snd (get_avatar_upload_url env0 (JObj avatar_png) world0))
       = [GeneratePresignedUrl (Some ''b'') ''avatars/u1/avatar.png'' (JStr ''image/png'')]
   \<and> trace (snd (get_avatar_upload_url env0 (JObj avatar_png2) world0))
       = [GeneratePresignedUrl (Some ''b'') ''avatars/u1/avatar.png'' (JStr ''image/x-png'')]
   \<and> fst (get_avatar_upload_url env0 (JObj avatar_png) world0)
       = Inr (JObj [(''upload_url'', JStr ''signed:avatars/u1/avatar.png''),
                    (''public_url'', JStr ''https://b.s3.amazonaws.com/avatars/u1/avatar.png''),
                    (''s3_key'', JStr ''avatars/u1/avatar.png'')], 200)"
proof -
  have a: "avatar_request avatar_png (JStr ''u1'') ''me.holiday.png'' (JStr ''image/png'')"
    and b: "avatar_request avatar_png2 (JStr ''u1'') ''other.png'' (JStr ''image/x-png'')"
    by (simp_all add: avatar_request_def avatar_png_def avatar_png2_def dict_get_def)
  have e: "file_ext ''me.holiday.png'' = ''png''" and f: "file_ext ''other.png'' = ''png''"
    by (simp_all add: file_ext_def py_split_def)
  have k: "''avatars/u1/avatar.png'' = ''avatars/'' @ py_str (repr env0) (JStr ''u1'') @ ''/avatar.'' @ ''png''"
    by (simp add: py_str_def)
  have n: "raises env0 tr ev = None" for tr ev
    by (simp add: env0_def)
  have v: "AWS_S3_BUCKET env0 = Some ''b''" "bucket_prefix env0 = ''b.s3.amazonaws.com/''"
    "presigned_url env0 bk key c = ''signed:'' @ key" "trace world0 = []" for bk key c
    by (simp_all add: env0_def bucket_prefix_def bucket_text_def world0_def)
  show ?thesis
    using avatar_key_pure [OF _ a b e f k, of get_avatar_upload_url world0 world0]
    by (simp add: a b e f n v)
qed

theorem upload_key_timestamp_witness:
  "upload_request upload_jpg (JStr ''u1'') (JStr ''image'') ''a.jpg'' (JStr ''image/jpeg'')
   \<and> time_millis env0 (trace world0) = 1700000000000
   \<and> time_millis env0 (trace (snd (get_upload_url env0 (JObj upload_jpg) world0))) = 1700000000002
   \<and> trace (snd (get_upload_url env0 (JObj upload_jpg) world0))
       = [TimeTime, GeneratePresignedUrl (Some ''b'') ''post-images/u1/1700000000000.jpg''
                      (JStr ''image/jpeg'')]
   \<and> upload_s3_key env0 (JStr ''image'') (JStr ''u1'') 1700000000000 (file_ext ''a.jpg'')
       \<noteq> upload_s3_key env0 (JStr ''image'') (JStr ''u1'') 1700000000002 (file_ext ''a.jpg'')
   \<and> trace (snd (endpoints_get_upload_url env0 (JObj upload_jpg) world0))
       = trace (snd (get_upload_url env0 (JObj upload_jpg) world0))"
proof -
  have a: "upload_request upload_jpg (JStr ''u1'') (JStr ''image'') ''a.jpg'' (JStr ''image/jpeg'')"
    by (simp add: upload_request_def avatar_request_def upload_jpg_def dict_get_def)
  have t: "time_millis env0 tr = 1700000000000 + int (length tr)" for tr
    by (simp add: env0_def)
  have v: "AWS_S3_BUCKET env0 = Some ''b''" "trace world0 = []"
    by (simp_all add: env0_def world0_def)
  have k: "upload_s3_key env0 (JStr ''image'') (JStr ''u1'') 1700000000000 (file_ext ''a.jpg'')
           = ''post-images/u1/1700000000000.jpg''"
    by (simp add: upload_s3_key_def folder_def py_str_def str_int_def str_nat.simps digit_char_def
        file_ext_def py_split_def)
  note first = upload_key_timestamp [OF _ a a refl refl refl refl,
      of get_upload_url env0 world0 "snd (get_upload_url env0 (JObj upload_jpg) world0)"]
  note same = upload_key_timestamp [OF _ a a refl refl refl refl,
      of endpoints_get_upload_url env0 world0 world0]
  have tr: "trace (snd (get_upload_url env0 (JObj upload_jpg) world0))
       = [TimeTime, GeneratePresignedUrl (Some ''b'') ''post-images/u1/1700000000000.jpg''
                      (JStr ''image/jpeg'')]"
    using first by (simp add: t v k)
  show ?thesis
    using first same
    by (simp add: a t v k tr)
qed

subsection \<open>Post Ingestion: a failing insert\<close>

lemma create_post_by_bot_try_steps:
  "create_post_by_bot_try env rj w =
     (case token_step env w of
        (Inl e, w1) \<Rightarrow> (Inl e, w1)
      | (Inr (tok, uid), w1) \<Rightarrow>
          validated rj (\<lambda>data.
            and_then (print_media_count (dict_get data ''media_url'' (JList []))) (\<lambda>_.
            and_then (table_insert env ''posts'' (post_data (opt_str uid) data)) (\<lambda>rows.
            ret (success rows ''Post created successfully'' 201))))
            (w1\<lparr>trace := trace w1 @ [PostgrestAuth tok]\<rparr>))"
  by (simp add: create_post_by_bot_try_def token_step_def io_defs split: prod.splits sum.splits)

lemma endpoints_post_try_steps:
  "endpoints_post_try table env rj w =
     (case endpoints_token_step env w of
        (Inl e, w1) \<Rightarrow> (Inl e, w1)
      | (Inr (tok, uid), w1) \<Rightarrow>
          validated rj (\<lambda>data.
            and_then (print_media_count (dict_get data ''media_url'' (JList []))) (\<lambda>_.
            and_then (table_insert env table (endpoints_post_data (opt_str uid) data)) (\<lambda>rows.
            ret (success rows ''Post created successfully'' 201))))
            (w1\<lparr>trace := trace w1 @ [PostgrestAuth tok]\<rparr>))"
  by (simp add: endpoints_post_try_def endpoints_token_step_def io_defs
      split: prod.splits sum.splits)

lemma insert_refused:
  "raises env (trace w) (TableInsert table r) = Some e \<Longrightarrow>
   and_then (table_insert env table r) f w = (Inl e, w\<lparr>trace := trace w @ [TableInsert table r]\<rparr>)"
  by (simp add: table_insert_def io_defs)

lemma failed_try_media:
  "post_handler H T \<Longrightarrow> T env (JObj d) w = (Inl e, w1) \<Longrightarrow>
   map_of d ''media_url'' = Some (JList urls) \<Longrightarrow> urls \<noteq> [] \<Longrightarrow>
   H env (JObj d) w =
     (Inr (failure (str_of_error e) 500), snd (delete_media_from_storage env (JList urls) w1))"
  by (simp add: post_handler_unfold try_except_def post_failed_media)

lemma failed_try_no_media:
  "post_handler H T \<Longrightarrow> T env rj w = (Inl e, w1) \<Longrightarrow> no_media rj \<Longrightarrow>
   H env rj w = (Inr (failure (str_of_error e) 500), w1)"
  by (simp add: post_handler_unfold try_except_def post_failed_no_media)

lemma direct_insert_refused:
  assumes "truthy (dict_get d ''content'' JNull)" "truthy (dict_get d ''twitter_unique_id'' JNull)"
    and "media_countable d"
    and "token_step env w = (Inr (tok, uid), w1)"
    and "raises env (trace w1 @ [PostgrestAuth tok]) (TableInsert ''posts'' (post_data (opt_str uid) d))
           = Some e"
  shows "create_post_by_bot_try env (JObj d) w =
           (Inl e, w1\<lparr>trace := trace w1 @ [PostgrestAuth tok,
                                             TableInsert ''posts'' (post_data (opt_str uid) d)]\<rparr>)"
  using assms
  by (simp add: create_post_by_bot_try_steps validated_ok and_then_def [of "print_media_count _"]
      print_media_count_ok insert_refused)

lemma pending_insert_refused:
  assumes "truthy (dict_get d ''content'' JNull)" "truthy (dict_get d ''twitter_unique_id'' JNull)"
    and "media_countable d"
    and "raises env (trace w @ lookup_events (dict_get d ''twitter_username'' JNull))
           (TableInsert ''twitter_posts''
              (post_data (mapped_user_id env w (dict_get d ''twitter_username'' JNull)) d)) = Some e"
  shows "create_post_by_bot_for_approval_try env (JObj d) w =
           (Inl e, w\<lparr>trace := trace w @ lookup_events (dict_get d ''twitter_username'' JNull)
              @ [TableInsert ''twitter_posts''
                   (post_data (mapped_user_id env w (dict_get d ''twitter_username'' JNull)) d)]\<rparr>)"
  using assms
  by (simp add: create_post_by_bot_for_approval_try_def validated_ok
      and_then_def [of "resolve_user_id _ _"] resolve_user_id_spec
      and_then_def [of "print_media_count _"] print_media_count_ok insert_refused)

lemma endpoints_insert_refused:
  assumes "truthy (dict_get d ''content'' JNull)" "truthy (dict_get d ''twitter_unique_id'' JNull)"
    and "media_countable d"
    and "endpoints_token_step env w = (Inr (tok, uid), w1)"
    and "raises env (trace w1 @ [PostgrestAuth tok])
           (TableInsert table (endpoints_post_data (opt_str uid) d)) = Some e"
  shows "endpoints_post_try table env (JObj d) w =
           (Inl e, w1\<lparr>trace := trace w1 @ [PostgrestAuth tok,
                                             TableInsert table (endpoints_post_data (opt_str uid) d)]\<rparr>)"
  using assms
  by (simp add: endpoints_post_try_steps validated_ok and_then_def [of "print_media_count _"]
      print_media_count_ok insert_refused)

text \<open>
  Claim C1. \<open>H\<close> is one of the four Post Ingestion handlers and \<open>T\<close> its \<^verbatim>\<open>try\<close> block.
  First: whenever the block raises an exception \<open>e\<close>, in a state \<open>w1\<close>, and the request
  body holds a non-empty list under \<^verbatim>\<open>media_url\<close>, the handler runs
  \<^verbatim>\<open>delete_media_from_storage\<close> on exactly that list, from \<open>w1\<close>, and then answers 500 with
  \<^verbatim>\<open>str(e)\<close>; when \<^verbatim>\<open>media_url\<close> is absent, \<^verbatim>\<open>null\<close> or empty, it answers 500 from \<open>w1\<close>
  unchanged: no cleanup runs. Second: a failing insert is such a raise, in each of the
  four blocks. For a body that passes validation and whose \<^verbatim>\<open>media_url\<close> has a length,
  the block reaches the insert of its record \<open>r\<close> (after the token step, where the
  handler has one, and after the mapping lookup in the pending handler of
  \<^verbatim>\<open>src/api/index.py\<close>), and when the database refuses it with \<open>e\<close> the block raises \<open>e\<close>
  in the state whose trace ends with that insert.
\<close>

theorem cleanup_on_failure:
  assumes "post_handler H T"
  shows "(\<forall>e w1. T env request_json w = (Inl e, w1) \<longrightarrow>
            (\<forall>d urls. request_json = JObj d \<and> map_of d ''media_url'' = Some (JList urls)
                \<and> urls \<noteq> [] \<longrightarrow>
               H env request_json w =
                 (Inr (failure (str_of_error e) 500),
                  snd (delete_media_from_storage env (JList urls) w1)))
          \<and> (no_media request_json \<longrightarrow>
               H env request_json w = (Inr (failure (str_of_error e) 500), w1)))
       \<and> (\<forall>d e. request_json = JObj d
              \<and> truthy (dict_get d ''content'' JNull)
              \<and> truthy (dict_get d ''twitter_unique_id'' JNull)
              \<and> media_countable d \<longrightarrow>
            (\<forall>tok uid w1 r.
               token_step env w = (Inr (tok, uid), w1)
               \<and> r = post_data (opt_str uid) d
               \<and> raises env (trace w1 @ [PostgrestAuth tok]) (TableInsert ''posts'' r) = Some e \<longrightarrow>
               create_post_by_bot_try env request_json w =
                 (Inl e, w1\<lparr>trace := trace w1 @ [PostgrestAuth tok, TableInsert ''posts'' r]\<rparr>))
          \<and> (\<forall>u r.
               u = dict_get d ''twitter_username'' JNull
               \<and> r = post_data (mapped_user_id env w u) d
               \<and> raises env (trace w @ lookup_events u) (TableInsert ''twitter_posts'' r) = Some e \<longrightarrow>
               create_post_by_bot_for_approval_try env request_json w =
                 (Inl e, w\<lparr>trace := trace w @ lookup_events u @ [TableInsert ''twitter_posts'' r]\<rparr>))
          \<and> (\<forall>table tok uid w1 r.
               endpoints_token_step env w = (Inr (tok, uid), w1)
               \<and> r = endpoints_post_data (opt_str uid) d
               \<and> raises env (trace w1 @ [PostgrestAuth tok]) (TableInsert table r) = Some e \<longrightarrow>
               endpoints_post_try table env request_json w =
                 (Inl e, w1\<lparr>trace := trace w1 @ [PostgrestAuth tok, TableInsert table r]\<rparr>)))"
  using assms
  by (intro conjI allI impI)
    (auto simp: failed_try_media failed_try_no_media direct_insert_refused
      pending_insert_refused endpoints_insert_refused)


theorem cleanup_on_failure_witness:
  "create_post_by_bot_try env_insert_fails (JObj post_with_media) world0 =
     (Inl (Exception ''duplicate key''),
      world_logged_in\<lparr>trace := trace world_logged_in @
        [PostgrestAuth ''tok'', TableInsert ''posts'' (post_data (opt_str (Some ''bot-user'')) post_with_media)]\<rparr>)
   \<and> create_post_by_bot env_insert_fails (JObj post_with_media) world0 =
     (Inr (failure ''duplicate key'' 500),
      world_logged_in\<lparr>trace := trace world_logged_in @
        [PostgrestAuth ''tok'', TableInsert ''posts'' (post_data (opt_str (Some ''bot-user'')) post_with_media),
         DeleteObject (Some ''b'') ''k1'']\<rparr>)
   \<and> endpoints_create_post_by_bot env_insert_fails (JObj post_with_media) world0 =
     (Inr (failure ''duplicate key'' 500),
      world_logged_in\<lparr>trace := trace world_logged_in @
        [PostgrestAuth ''tok'',
         TableInsert ''posts'' (endpoints_post_data (opt_str (Some ''bot-user'')) post_with_media),
         DeleteObject (Some ''b'') ''k1'']\<rparr>)
   \<and> endpoints_create_post_by_bot_for_approval env_insert_fails (JObj post_with_media) world0 =
     (Inr (failure ''duplicate key'' 500),
      world_logged_in\<lparr>trace := trace world_logged_in @
        [PostgrestAuth ''tok'',
         TableInsert ''twitter_posts'' (endpoints_post_data (opt_str (Some ''bot-user'')) post_with_media),
         DeleteObject (Some ''b'') ''k1'']\<rparr>)
   \<and> no_media (JObj post_without_media)
   \<and> create_post_by_bot_for_approval env_insert_fails (JObj post_without_media) world0 =
     (Inr (failure ''duplicate key'' 500),
      world0\<lparr>trace := trace world0 @ lookup_events (dict_get post_without_media ''twitter_username'' JNull)
        @ [TableInsert ''twitter_posts''
             (post_data (mapped_user_id env_insert_fails world0
                (dict_get post_without_media ''twitter_username'' JNull)) post_without_media)]\<rparr>)"
proof -
  let ?env = env_insert_fails
  let ?e = "Exception ''duplicate key''"
  have ph: "post_handler create_post_by_bot create_post_by_bot_try"
    "post_handler create_post_by_bot_for_approval create_post_by_bot_for_approval_try"
    "post_handler endpoints_create_post_by_bot (endpoints_post_try ''posts'')"
    "post_handler endpoints_create_post_by_bot_for_approval (endpoints_post_try ''twitter_posts'')"
    by (simp_all add: post_handler_def)
  have ts: "token_step ?env world0 = (Inr (''tok'', Some ''bot-user''), world_logged_in)"
    and ets: "endpoints_token_step ?env world0 = (Inr (''tok'', Some ''bot-user''), world_logged_in)"
    by (simp_all add: token_step_def endpoints_token_step_def env_insert_fails_def world_logged_in_def
        sample_defs get_token_def endpoints_get_token_def get_user_id_def endpoints_get_user_id_def
        login_and_refresh_def set_token_def set_user_id_def set_expires_at_def io_defs hour_def)
  have rz: "raises ?env tr (TableInsert t r) = Some ?e" for tr t r
    by (simp add: env_insert_fails_def env0_def)
  have v: "truthy (dict_get post_with_media ''content'' JNull)"
    "truthy (dict_get post_with_media ''twitter_unique_id'' JNull)"
    "media_countable post_with_media"
    "map_of post_with_media ''media_url'' = Some (JList [JStr ''https://b.s3.amazonaws.com/k1''])"
    and v': "truthy (dict_get post_without_media ''content'' JNull)"
    "truthy (dict_get post_without_media ''twitter_unique_id'' JNull)"
    "media_countable post_without_media"
    "no_media (JObj post_without_media)"
    by (simp_all add: post_with_media_def post_without_media_def dict_get_def media_countable_def
        no_media_def)
  have del: "snd (delete_media_from_storage ?env (JList [JStr ''https://b.s3.amazonaws.com/k1'']) W)
               = W\<lparr>trace := trace W @ [DeleteObject (Some ''b'') ''k1'']\<rparr>" for W
    using delete_each_urls [of ?env "[''https://b.s3.amazonaws.com/k1'']" W]
    by (simp add: delete_media_from_storage_def py_len_def py_iter_def io_defs
        env_insert_fails_def env0_def bucket_prefix_def bucket_text_def py_split_def)
  note raised = cleanup_on_failure [THEN conjunct2, rule_format]
  note cleaned = cleanup_on_failure [THEN conjunct1, rule_format, THEN conjunct1, rule_format]
  note plain = cleanup_on_failure [THEN conjunct1, rule_format, THEN conjunct2, rule_format]
  have t1: "create_post_by_bot_try ?env (JObj post_with_media) world0 =
     (Inl ?e, world_logged_in\<lparr>trace := trace world_logged_in @
        [PostgrestAuth ''tok'', TableInsert ''posts'' (post_data (opt_str (Some ''bot-user'')) post_with_media)]\<rparr>)"
    by (rule raised [OF ph(1), THEN conjunct1, rule_format]) (simp_all add: v ts rz)
  have t3: "endpoints_post_try table ?env (JObj post_with_media) world0 =
     (Inl ?e, world_logged_in\<lparr>trace := trace world_logged_in @
        [PostgrestAuth ''tok'',
         TableInsert table (endpoints_post_data (opt_str (Some ''bot-user'')) post_with_media)]\<rparr>)"
    for table
    by (rule raised [OF ph(3), THEN conjunct2, THEN conjunct2, rule_format])
      (simp_all add: v ets rz)
  have t2: "create_post_by_bot_for_approval_try ?env (JObj post_without_media) world0 =
     (Inl ?e, world0\<lparr>trace := trace world0
        @ lookup_events (dict_get post_without_media ''twitter_username'' JNull)
        @ [TableInsert ''twitter_posts''
             (post_data (mapped_user_id ?env world0
                (dict_get post_without_media ''twitter_username'' JNull)) post_without_media)]\<rparr>)"
    by (rule raised [OF ph(2), THEN conjunct2, THEN conjunct1, rule_format])
      (simp_all add: v' rz)
  show ?thesis
    using t1 v'(4) cleaned [OF ph(1) t1] cleaned [OF ph(3) t3] cleaned [OF ph(4) t3]
      plain [OF ph(2) t2 v'(4)]
    by (simp add: v del)
qed

end
